theory Spec2Isabelle
  imports Complex_Main "HOL-Library.AList"
begin

section \<open>Python values, dictionaries and exceptions\<close>

text \<open>
  The exceptions the connector can raise or let through. Every \<^verbatim>\<open>raise\<close> of the source and
  every failing builtin (\<^verbatim>\<open>xs[0]\<close> on an empty list, \<^verbatim>\<open>d.pop(k)\<close> on a missing key,
  \<^verbatim>\<open>int(s)\<close> on a non-number, \<^verbatim>\<open>len\<close> of a scalar, a name that is bound nowhere) is a
  value of this type.
\<close>

datatype error =
    NameError string
  | AttributeError string
  | KeyError string
  | IndexError
  | TypeError
  | ValueError
  | UnboundLocalError string
  | MisconfigurationException

text \<open>
  A metric value is a plain number or a tensor holding one number (\<^verbatim>\<open>v.item()\<close> reads it).
\<close>

datatype mval = Scalar real | Tensor real

fun item :: "mval \<Rightarrow> mval" where
  "item (Tensor x) = Scalar x"
| "item (Scalar x) = Scalar x"

text \<open>
  A Python \<^verbatim>\<open>dict\<close> with string keys: an association list in insertion order.
  \<^verbatim>\<open>d[k] = v\<close> is \<^const>\<open>AList.update\<close> (an existing key keeps its place, a new key goes
  last), \<^verbatim>\<open>del d[k]\<close> is \<^const>\<open>AList.delete\<close>, \<^verbatim>\<open>d[k]\<close> is \<^const>\<open>map_of\<close>.
\<close>

type_synonym 'v dict = "(string \<times> 'v) list"

definition keys :: "'v dict \<Rightarrow> string list" where
  "keys d = map fst d"

definition dict_contains :: "string \<Rightarrow> 'v dict \<Rightarrow> bool" where
  "dict_contains k d = (map_of d k \<noteq> None)"

text \<open>\<^verbatim>\<open>d.update(e)\<close>: the items of \<^verbatim>\<open>e\<close> are stored into \<^verbatim>\<open>d\<close> one after the other.\<close>

fun dict_update :: "'v dict \<Rightarrow> 'v dict \<Rightarrow> 'v dict" where
  "dict_update d [] = d"
| "dict_update d ((k, v) # e) = dict_update (AList.update k v d) e"

text \<open>\<^verbatim>\<open>d.pop(k)\<close> with no default: the value and the dict without the key, or KeyError.\<close>

definition dict_pop :: "string \<Rightarrow> 'v dict \<Rightarrow> error + ('v \<times> 'v dict)" where
  "dict_pop k d = (case map_of d k of
      None \<Rightarrow> Inl (KeyError k)
    | Some v \<Rightarrow> Inr (v, AList.delete k d))"

text \<open>
  \<^verbatim>\<open>dict(ChainMap(*maps))\<close>. A ChainMap looks a key up in its maps from the first to the
  last and answers from the first map that has it; it iterates over the keys by updating an
  empty dict with the maps from the last to the first. \<^verbatim>\<open>ChainMap()\<close> with no argument holds
  one empty dict, which gives the same empty result.
\<close>

fun chain_lookup :: "'v dict list \<Rightarrow> string \<Rightarrow> 'v option" where
  "chain_lookup [] k = None"
| "chain_lookup (m # ms) k = (case map_of m k of Some v \<Rightarrow> Some v | None \<Rightarrow> chain_lookup ms k)"

definition chain_keys :: "'v dict list \<Rightarrow> string list" where
  "chain_keys maps = keys (fold (\<lambda>m acc. dict_update acc m) (rev maps) [])"

definition dict_of_chainmap :: "'v dict list \<Rightarrow> 'v dict" where
  "dict_of_chainmap maps =
     concat (map (\<lambda>k. case chain_lookup maps k of Some v \<Rightarrow> [(k, v)] | None \<Rightarrow> []) (chain_keys maps))"

section \<open>Stages\<close>

text \<open>
  \<^verbatim>\<open>class LoggerStages(Enum)\<close>: TRAIN = "train", VAL = "validation", TEST = "test",
  ALL = "all".
\<close>

datatype LoggerStages = LS_TRAIN | LS_VAL | LS_TEST | LS_ALL

fun stage_value :: "LoggerStages \<Rightarrow> string" where
  "stage_value LS_TRAIN = ''train''"
| "stage_value LS_VAL = ''validation''"
| "stage_value LS_TEST = ''test''"
| "stage_value LS_ALL = ''all''"

text \<open>
  \<^verbatim>\<open>self.__stages = sorted([s.value for s in LoggerStages])\<close>: the four values in
  lexicographic order of their characters.
\<close>

definition all_stages :: "string list" where
  "all_stages = [stage_value LS_ALL, stage_value LS_TEST, stage_value LS_TRAIN, stage_value LS_VAL]"

text \<open>\<^verbatim>\<open>__lookup_stages = {"0": "test", "1": "val", "True": "test", "False": "val"}\<close>\<close>

definition lookup_stages :: "string dict" where
  "lookup_stages = [(''0'', ''test''), (''1'', ''val''), (''True'', ''test''), (''False'', ''val'')]"

text \<open>The argument of \<^verbatim>\<open>_determine_stage\<close> is typed \<^verbatim>\<open>Union[str, bool]\<close>.\<close>

datatype stage_or_testing = Str string | Bool bool

fun py_str :: "stage_or_testing \<Rightarrow> string" where
  "py_str (Str s) = s"
| "py_str (Bool True) = ''True''"
| "py_str (Bool False) = ''False''"

definition determine_stage :: "stage_or_testing \<Rightarrow> error + string" where
  "determine_stage stage_or_testing =
     (let stage_or_testing = py_str stage_or_testing;
          stages = tl all_stages
      in if stage_or_testing \<in> set stages then Inr stage_or_testing
         else case map_of lookup_stages stage_or_testing of
                Some s \<Rightarrow> Inr s
              | None \<Rightarrow> Inl MisconfigurationException)"

section \<open>Strings\<close>

text \<open>\<^verbatim>\<open>s.startswith(p)\<close> and \<^verbatim>\<open>p in s\<close> (substring test).\<close>

fun startswith :: "string \<Rightarrow> string \<Rightarrow> bool" where
  "startswith [] s = True"
| "startswith (p # ps) [] = False"
| "startswith (p # ps) (c # cs) = (p = c \<and> startswith ps cs)"

fun contains :: "string \<Rightarrow> string \<Rightarrow> bool" where
  "contains p [] = (p = [])"
| "contains p (c # cs) = (startswith p (c # cs) \<or> contains p cs)"

text \<open>\<^verbatim>\<open>s.split(sep)\<close> for a one-character separator: never an empty list.\<close>

fun split_on :: "char \<Rightarrow> string \<Rightarrow> string list" where
  "split_on sep [] = [[]]"
| "split_on sep (c # cs) =
     (if c = sep then [] # split_on sep cs
      else case split_on sep cs of
             [] \<Rightarrow> [[c]]
           | w # ws \<Rightarrow> (c # w) # ws)"

text \<open>
  \<^verbatim>\<open>int(s)\<close> on a string: surrounding whitespace is dropped, one sign is allowed, and what
  is left must be decimal digits, at least one; anything else is a ValueError. (Digit
  grouping with underscores cannot occur here: the argument is a piece of
  \<^verbatim>\<open>key.split("_")\<close>.) A character stands for its code point, below 256. The blanks that
  \<^verbatim>\<open>int\<close> drops there are the space, U+0009 to U+000D, U+0085 and U+00A0; the decimal
  digits there are "0" to "9".
\<close>

definition is_space :: "char \<Rightarrow> bool" where
  "is_space c =
     (c \<in> set [CHR '' '', CHR 0x09, CHR 0x0A, CHR 0x0B, CHR 0x0C, CHR 0x0D, CHR 0x85, CHR 0xA0])"

definition is_digit :: "char \<Rightarrow> bool" where
  "is_digit c = (48 \<le> (of_char c :: nat) \<and> (of_char c :: nat) \<le> 57)"

definition digit_val :: "char \<Rightarrow> nat" where
  "digit_val c = of_char c - 48"

definition strip :: "string \<Rightarrow> string" where
  "strip s = rev (dropWhile is_space (rev (dropWhile is_space s)))"

definition digits_val :: "string \<Rightarrow> nat" where
  "digits_val ds = foldl (\<lambda>acc c. 10 * acc + digit_val c) 0 ds"

definition parse_digits :: "string \<Rightarrow> error + nat" where
  "parse_digits ds = (if ds \<noteq> [] \<and> list_all is_digit ds then Inr (digits_val ds) else Inl ValueError)"

definition py_int :: "string \<Rightarrow> error + int" where
  "py_int s =
     (case strip s of
        [] \<Rightarrow> Inl ValueError
      | c # cs \<Rightarrow>
          if c = CHR ''-'' then (case parse_digits cs of Inl e \<Rightarrow> Inl e | Inr n \<Rightarrow> Inr (- int n))
          else if c = CHR ''+'' then (case parse_digits cs of Inl e \<Rightarrow> Inl e | Inr n \<Rightarrow> Inr (int n))
          else (case parse_digits (c # cs) of Inl e \<Rightarrow> Inl e | Inr n \<Rightarrow> Inr (int n)))"

text \<open>
  The decimal text of a dataloader index, as the f-string \<^verbatim>\<open>f"{name}/dataloader_idx_{k}"\<close>
  writes it.
\<close>

definition digit_char :: "nat \<Rightarrow> char" where
  "digit_char d = char_of (48 + d)"

fun show_nat :: "nat \<Rightarrow> string" where
  "show_nat n = (if n < 10 then [digit_char n] else show_nat (n div 10) @ [digit_char (n mod 10)])"

declare show_nat.simps [simp del]

text \<open>
  The name of a metric forked to the dataloader \<open>j\<close>: \<^verbatim>\<open>name\<close>, then the suffix
  \<^verbatim>\<open>/dataloader_idx_<j>\<close>.
\<close>

definition forked_name :: "string \<Rightarrow> nat \<Rightarrow> string" where
  "forked_name name j = name @ ''/dataloader_idx_'' @ show_nat j"

section \<open>Results, the trainer and the connector\<close>

text \<open>
  \<^verbatim>\<open>pytorch_lightning.core.step_result.Result\<close> (and its subclass \<^verbatim>\<open>EvalResult\<close>) is not
  part of the connector: a result is represented by what its accessors answer.
  \<^verbatim>\<open>Result\<close> subclasses \<^verbatim>\<open>dict\<close>; \<open>result_len\<close> is its \<^verbatim>\<open>len\<close> and \<open>contains_extra\<close>
  is \<^verbatim>\<open>'extra' in result\<close>.
\<close>

record result =
  is_EvalResult :: bool
  result_len :: nat
  contains_extra :: bool
  get_batch_log_metrics :: "mval dict"
  get_batch_pbar_metrics :: "mval dict"
  get_forked_metrics :: "mval dict"
  get_epoch_log_metrics :: "mval dict"
  get_epoch_pbar_metrics :: "mval dict"
  attr_epoch_log_metrics :: "mval dict"
  attr_epoch_pbar_metrics :: "mval dict"
  attr_callback_metrics :: "mval dict"

text \<open>
  \<^verbatim>\<open>trainer.logger\<close>: the backend is seen through the calls it receives,
  \<^verbatim>\<open>agg_and_log_metrics(scalar_metrics, step=step)\<close> and \<^verbatim>\<open>save()\<close>.
\<close>

record backend =
  agg_and_log_calls :: "(mval dict \<times> mval) list"
  save_calls :: nat

text \<open>
  \<^verbatim>\<open>EpochLoopResult\<close>: \<open>under_split_idx\<close> is the field \<^verbatim>\<open>_split_idx\<close> that \<^verbatim>\<open>__init__\<close>
  sets to None and \<^verbatim>\<open>cache_result\<close> reads; \<open>split_idx\<close> is the attribute \<^verbatim>\<open>split_idx\<close>
  that \<^verbatim>\<open>BatchSplitIdxManager\<close> assigns (\<open>None\<close> while the attribute does not exist yet,
  \<open>Some None\<close> when it holds Python's None).
\<close>

record epoch_loop_result =
  elr_stage :: string
  internals :: "(string \<times> (nat \<times> result list) list) list"
  under_dataloader_idx :: "nat option"
  under_split_idx :: "int option"
  split_idx :: "int option option"

text \<open>
  \<^verbatim>\<open>BatchSplitIdxManager\<close>: \<open>mgr_split_idx\<close> is its attribute \<^verbatim>\<open>split_idx\<close>, which only
  \<^verbatim>\<open>LoggerConnector.split_idx_manager\<close> assigns (\<open>None\<close> before that).
\<close>

record batch_split_idx_manager =
  mgr_stage :: string
  mgr_split_idx :: "int option"

text \<open>
  The connector's own fields and, of the trainer it holds, the fields it reads or writes.
  \<open>step_metrics\<close> is \<^verbatim>\<open>trainer.evaluation_loop.step_metrics\<close>, \<open>logger\<close> is
  \<^verbatim>\<open>trainer.logger\<close>, \<open>dev_debugger_enabled\<close> is \<^verbatim>\<open>trainer.dev_debugger.enabled\<close>,
  \<open>log_gpu_memory\<close> is the truth value of \<^verbatim>\<open>trainer.log_gpu_memory\<close>. What is printed and
  what the debugger records are not part of the state.
\<close>

record state =
  callback_metrics :: "mval dict"
  logged_metrics :: "mval dict"
  progress_bar_metrics :: "mval dict"
  eval_loop_results :: "mval dict list"
  current_stage :: "string option"
  cached_results :: "epoch_loop_result dict"
  split_idx_managers :: "batch_split_idx_manager dict"
  testing :: bool
  is_global_zero :: bool
  verbose_test :: bool
  running_sanity_check :: bool
  on_gpu :: bool
  log_gpu_memory :: bool
  dev_debugger_enabled :: bool
  logger :: "backend option"
  current_epoch :: int
  global_step :: int
  trainer_split_idx :: "int option"
  step_metrics :: "result list list"

text \<open>The empty connector that \<^verbatim>\<open>LoggerConnector.__init__\<close> builds.\<close>

definition new_EpochLoopResult :: "string \<Rightarrow> epoch_loop_result" where
  "new_EpochLoopResult stage =
     \<lparr>elr_stage = stage, internals = [], under_dataloader_idx = None, under_split_idx = None,
      split_idx = None\<rparr>"

definition new_BatchSplitIdxManager :: "string \<Rightarrow> batch_split_idx_manager" where
  "new_BatchSplitIdxManager stage = \<lparr>mgr_stage = stage, mgr_split_idx = None\<rparr>"

definition init_connector :: "state \<Rightarrow> state" where
  "init_connector s =
     s\<lparr>callback_metrics := [], logged_metrics := [], progress_bar_metrics := [],
       eval_loop_results := [], current_stage := None,
       cached_results := map (\<lambda>stage. (stage, new_EpochLoopResult stage)) all_stages,
       split_idx_managers := map (\<lambda>stage. (stage, new_BatchSplitIdxManager stage)) (tl all_stages)\<rparr>"

text \<open>
  A connector fresh from \<^verbatim>\<open>__init__\<close>, on a trainer that is not testing, is the primary
  process, has no logger yet and stands at epoch 0, step 0.
\<close>

definition new_state :: state where
  "new_state = init_connector
     \<lparr>callback_metrics = [], logged_metrics = [], progress_bar_metrics = [],
      eval_loop_results = [], current_stage = None, cached_results = [],
      split_idx_managers = [], testing = False, is_global_zero = True, verbose_test = False,
      running_sanity_check = False, on_gpu = False, log_gpu_memory = False,
      dev_debugger_enabled = False, logger = None, current_epoch = 0, global_step = 0,
      trainer_split_idx = None, step_metrics = []\<rparr>"

section \<open>The evaluation snapshots\<close>

text \<open>
  \<^verbatim>\<open>del d[key]\<close> raises KeyError when the key is missing.
\<close>

definition dict_del :: "string \<Rightarrow> 'v dict \<Rightarrow> error + 'v dict" where
  "dict_del k d = (if dict_contains k d then Inr (AList.delete k d) else Inl (KeyError k))"

text \<open>
  The loop of \<^verbatim>\<open>add_to_eval_loop_results\<close> over \<^verbatim>\<open>list(callback_metrics.keys())\<close>,
  on the copy of the callback metrics.
\<close>

fun drop_other_dataloaders :: "nat \<Rightarrow> string list \<Rightarrow> mval dict \<Rightarrow> error + mval dict" where
  "drop_other_dataloaders dl_idx [] cm = Inr cm"
| "drop_other_dataloaders dl_idx (key # ks) cm =
     (if contains ''/dataloader_idx_'' key then
        (case py_int (last (split_on CHR ''_'' key)) of
           Inl e \<Rightarrow> Inl e
         | Inr dl_idx_in_key \<Rightarrow>
             if dl_idx_in_key \<noteq> int dl_idx then
               (case dict_del key cm of
                  Inl e \<Rightarrow> Inl e
                | Inr cm' \<Rightarrow> drop_other_dataloaders dl_idx ks cm')
             else drop_other_dataloaders dl_idx ks cm)
      else drop_other_dataloaders dl_idx ks cm)"

definition add_to_eval_loop_results :: "nat \<Rightarrow> state \<Rightarrow> (error + unit) \<times> state" where
  "add_to_eval_loop_results dl_idx s =
     (let callback_metrics = callback_metrics s
      in case drop_other_dataloaders dl_idx (keys callback_metrics) callback_metrics of
           Inl e \<Rightarrow> (Inl e, s)
         | Inr cm \<Rightarrow> (Inr (), s\<lparr>eval_loop_results := eval_loop_results s @ [cm]\<rparr>))"

text \<open>
  What the loop does with a key. It drops the key when the key contains
  \<^verbatim>\<open>/dataloader_idx_\<close> and the integer after its last underscore is not the dataloader
  index. It can read that integer for every key of a dict when each key that contains
  \<^verbatim>\<open>/dataloader_idx_\<close> ends in an integer after its last underscore.
\<close>

definition dropped_from_snapshot :: "nat \<Rightarrow> string \<Rightarrow> bool" where
  "dropped_from_snapshot dl_idx key =
     (contains ''/dataloader_idx_'' key
      \<and> py_int (last (split_on CHR ''_'' key)) \<noteq> Inr (int dl_idx))"

definition forked_keys_parse :: "string list \<Rightarrow> bool" where
  "forked_keys_parse ks =
     list_all (\<lambda>key. case py_int (last (split_on CHR ''_'' key)) of
                        Inl e \<Rightarrow> False
                      | Inr i \<Rightarrow> True)
       (filter (contains ''/dataloader_idx_'') ks)"

text \<open>
  \<^verbatim>\<open>_get_evaluate_epoch_results\<close>. The first block only prints. The branch is taken on
  \<^verbatim>\<open>self.trainer.testing\<close>, not on the argument.
\<close>

definition get_evaluate_epoch_results :: "bool \<Rightarrow> state \<Rightarrow> (error + mval dict list) \<times> state" where
  "get_evaluate_epoch_results test_mode s =
     (if testing s then
        (case (if dev_debugger_enabled s
               then (case dict_pop ''debug_epoch'' (callback_metrics s) of
                       Inl e \<Rightarrow> Inl e
                     | Inr (v, cm) \<Rightarrow> Inr cm)
               else Inr (callback_metrics s)) of
           Inl e \<Rightarrow> (Inl e, s)
         | Inr cm \<Rightarrow>
             (let s1 = s\<lparr>eval_loop_results := eval_loop_results s @ [cm]\<rparr>;
                  results = [dict_of_chainmap (eval_loop_results s1)]
              in (Inr results, s1\<lparr>eval_loop_results := []\<rparr>)))
      else
        (let results = eval_loop_results s
         in (Inr results, s\<lparr>eval_loop_results := []\<rparr>)))"

section \<open>Collaborators\<close>

text \<open>
  What an evaluation loop hands over as a result of one dataloader or of the epoch: None, a
  scalar tensor, a plain dict, a \<^verbatim>\<open>Result\<close>, or some other object. The whole argument
  \<^verbatim>\<open>eval_results\<close> is a list of these or a single one.
\<close>

datatype eval_out = ENone | ETensor real | EDict "mval dict" | EResult result | EOther

datatype eval_results = EList "eval_out list" | ESingle eval_out

text \<open>
  The output of a training epoch, \<^verbatim>\<open>epoch_output[optimizer_idx][training_step_idx]\<close>: the
  entry of a training step is the list of its truncated-backpropagation outputs, or one
  output when it is no list. An output is a \<^verbatim>\<open>Result\<close> or something else.
\<close>

datatype step_out = SResult result | SOther

datatype step_entry = Tbptt "step_out list" | Direct step_out

type_synonym epoch_output = "step_entry list list"

text \<open>
  The accumulators of the checkpoint and early-stopping values: the attribute
  \<^verbatim>\<open>num_values\<close> and what \<^verbatim>\<open>mean()\<close> answers.
\<close>

record accumulator =
  num_values :: nat
  acc_mean :: mval

text \<open>
  The functions and methods the connector calls and that live outside of it are parameters:
  \<^item> \<open>metrics_to_scalars\<close> is \<^verbatim>\<open>trainer.metrics_to_scalars\<close>;
  \<^item> \<open>get_memory_profile\<close> is \<^verbatim>\<open>memory.get_memory_profile(trainer.log_gpu_memory)\<close>;
  \<^item> \<open>flatten_dict\<close> is \<^verbatim>\<open>pytorch_lightning.utilities.flatten_dict\<close>;
  \<^item> \<open>process_dict_result\<close> is \<^verbatim>\<open>trainer.process_dict_result\<close>, of whose five outputs the
    connector keeps the progress-bar, the log and the callback metrics;
  \<^item> \<open>reduce_on_epoch_end\<close> is the class method of the first result's class;
  \<^item> \<open>cached_metrics_get_as_list\<close> and \<open>cached_metrics_get_as_dict\<close> stand for
    \<^verbatim>\<open>self.cached_metrics(stage).get_as_list(hook, kind)\<close> and \<^verbatim>\<open>.get_as_dict(hook, kind)\<close>.
    The class \<^verbatim>\<open>LoggerConnector\<close> defines no \<^verbatim>\<open>cached_metrics\<close> and
    \<^verbatim>\<open>EpochLoopResult\<close> no \<^verbatim>\<open>get_as_list\<close>, so on the classes as they stand the call
    is an AttributeError (\<open>Inl\<close>); the theorems hold whatever it answers;
  \<^item> \<open>is_overridden_training_epoch_end\<close> is \<^verbatim>\<open>is_overridden('training_epoch_end', model=model)\<close>
    and \<open>automatic_optimization\<close> is \<^verbatim>\<open>trainer.train_loop.automatic_optimization\<close>;
  \<^item> \<open>training_epoch_end_hook\<close> is the model's \<^verbatim>\<open>training_epoch_end\<close> on the inputs that
    \<^verbatim>\<open>__prepare_epoch_end_inputs\<close> gathers from the results (of the first optimizer only
    when the flag is set): whether it returned something other than None, and the model's
    \<^verbatim>\<open>_results\<close> afterwards;
  \<^item> \<open>legacy_training_epoch_end_hook\<close> is the model's \<^verbatim>\<open>training_epoch_end\<close> on the legacy
    path, on the outputs gathered across time and optimizers when the first flag is set, of
    the first optimizer only when the second is;
  \<^item> \<open>auto_reduce_results_on_epoch_end\<close> is \<^verbatim>\<open>__auto_reduce_results_on_epoch_end\<close>, which
    computes the epoch's log and progress-bar metrics with the reducers of the result class.
\<close>

record env =
  metrics_to_scalars :: "mval dict \<Rightarrow> mval dict"
  get_memory_profile :: "mval dict"
  flatten_dict :: "eval_out \<Rightarrow> error + mval dict"
  process_dict_result :: "eval_out \<Rightarrow> error + (mval dict \<times> mval dict \<times> mval dict)"
  reduce_on_epoch_end :: "result list \<Rightarrow> error + result"
  cached_metrics_get_as_list :: "stage_or_testing \<Rightarrow> string \<Rightarrow> string \<Rightarrow> error + mval dict list"
  cached_metrics_get_as_dict :: "stage_or_testing \<Rightarrow> string \<Rightarrow> string \<Rightarrow> error + mval dict"
  is_overridden_training_epoch_end :: bool
  automatic_optimization :: bool
  training_epoch_end_hook :: "epoch_output \<Rightarrow> bool \<Rightarrow> error + (bool \<times> result)"
  legacy_training_epoch_end_hook :: "epoch_output \<Rightarrow> bool \<Rightarrow> bool \<Rightarrow> error + eval_out"
  auto_reduce_results_on_epoch_end :: "epoch_output \<Rightarrow> error + (mval dict \<times> mval dict)"

section \<open>Progress-bar metrics and logging\<close>

text \<open>
  \<^verbatim>\<open>add_progress_bar_metrics\<close>: every value, a tensor through \<^verbatim>\<open>item()\<close>, is stored under
  its key.
\<close>

fun add_progress_bar_metrics :: "mval dict \<Rightarrow> state \<Rightarrow> state" where
  "add_progress_bar_metrics [] s = s"
| "add_progress_bar_metrics ((k, v) # metrics) s =
     add_progress_bar_metrics metrics
       (s\<lparr>progress_bar_metrics :=
            AList.update k (case v of Tensor x \<Rightarrow> item v | Scalar x \<Rightarrow> v) (progress_bar_metrics s)\<rparr>)"

text \<open>
  The first half of \<^verbatim>\<open>log_metrics\<close>, which touches no state: the dict \<^verbatim>\<open>metrics\<close> after the
  two in-place updates, the scalar metrics and the step. With no \<^verbatim>\<open>step\<close> argument, a
  \<^verbatim>\<open>"step"\<close> key is popped and used; without one the epoch is added and the global step used.
\<close>

definition updated_metrics :: "env \<Rightarrow> state \<Rightarrow> mval dict \<Rightarrow> mval dict \<Rightarrow> mval dict" where
  "updated_metrics env s metrics grad_norm_dic =
     (let metrics = (if on_gpu s \<and> log_gpu_memory s
                     then dict_update metrics (get_memory_profile env) else metrics)
      in dict_update metrics grad_norm_dic)"

definition scalar_metrics_and_step ::
  "env \<Rightarrow> state \<Rightarrow> mval dict \<Rightarrow> mval dict \<Rightarrow> mval option \<Rightarrow> mval dict \<times> mval" where
  "scalar_metrics_and_step env s metrics grad_norm_dic step =
     (let scalar_metrics = metrics_to_scalars env (updated_metrics env s metrics grad_norm_dic)
      in case step of
           Some st \<Rightarrow> (scalar_metrics, st)
         | None \<Rightarrow>
             (case map_of scalar_metrics ''step'' of
                Some st \<Rightarrow> (AList.delete ''step'' scalar_metrics, st)
              | None \<Rightarrow>
                  (AList.update ''epoch'' (Scalar (of_int (current_epoch s))) scalar_metrics,
                   Scalar (of_int (global_step s)))))"

text \<open>
  \<^verbatim>\<open>log_metrics\<close>. Everything that writes is under \<^verbatim>\<open>if self.trainer.logger is not None\<close>:
  the two calls to the backend on the primary process only, the update of
  \<^verbatim>\<open>logged_metrics\<close> on every process. The caller's dict \<^verbatim>\<open>metrics\<close> is changed in place, so
  it is returned with the state.
\<close>

definition log_metrics ::
  "env \<Rightarrow> mval dict \<Rightarrow> mval dict \<Rightarrow> mval option \<Rightarrow> state \<Rightarrow> mval dict \<times> state" where
  "log_metrics env metrics grad_norm_dic step s =
     (let (scalar_metrics, step) = scalar_metrics_and_step env s metrics grad_norm_dic step;
          metrics = updated_metrics env s metrics grad_norm_dic
      in case logger s of
           None \<Rightarrow> (metrics, s)
         | Some lg \<Rightarrow>
             (let lg = (if is_global_zero s
                        then lg\<lparr>agg_and_log_calls := agg_and_log_calls lg @ [(scalar_metrics, step)],
                               save_calls := Suc (save_calls lg)\<rparr>
                        else lg)
              in (metrics, s\<lparr>logger := Some lg,
                              logged_metrics := dict_update (logged_metrics s) scalar_metrics\<rparr>)))"

section \<open>The end of an evaluation epoch\<close>

text \<open>
  \<^verbatim>\<open>len(eval_results)\<close> and \<^verbatim>\<open>eval_results[0]\<close>. A scalar tensor, None and a plain object
  have no length. \<^verbatim>\<open>Result\<close> subclasses \<^verbatim>\<open>dict\<close>: a single dict or result has a length, and
  indexing it with 0 looks up the key 0, which no metric name is.
\<close>

fun py_len :: "eval_results \<Rightarrow> error + nat" where
  "py_len (EList xs) = Inr (length xs)"
| "py_len (ESingle (EDict d)) = Inr (length d)"
| "py_len (ESingle (EResult r)) = Inr (result_len r)"
| "py_len (ESingle x) = Inl TypeError"

fun py_first :: "eval_results \<Rightarrow> error + eval_out" where
  "py_first (EList []) = Inl IndexError"
| "py_first (EList (x # xs)) = Inr x"
| "py_first (ESingle (EDict d)) = Inl (KeyError ''0'')"
| "py_first (ESingle (EResult r)) = Inl (KeyError ''0'')"
| "py_first (ESingle x) = Inl TypeError"

fun is_Result :: "eval_out \<Rightarrow> bool" where
  "is_Result (EResult r) = True"
| "is_Result x = False"

text \<open>\<^verbatim>\<open>eval_result.callback_metrics\<close>: only a \<^verbatim>\<open>Result\<close> has the attribute.\<close>

fun callback_metrics_of :: "eval_out \<Rightarrow> error + mval dict" where
  "callback_metrics_of (EResult r) = Inr (attr_callback_metrics r)"
| "callback_metrics_of x = Inl (AttributeError ''callback_metrics'')"

text \<open>The loop of \<^verbatim>\<open>_track_callback_metrics\<close> over a list of structured results.\<close>

fun update_from_eval_results :: "eval_out list \<Rightarrow> state \<Rightarrow> (error + unit) \<times> state" where
  "update_from_eval_results [] s = (Inr (), s)"
| "update_from_eval_results (eval_result # rest) s =
     (case callback_metrics_of eval_result of
        Inl e \<Rightarrow> (Inl e, s)
      | Inr cm \<Rightarrow>
          update_from_eval_results rest
            (s\<lparr>callback_metrics := dict_update (callback_metrics s) cm\<rparr>))"

text \<open>
  \<^verbatim>\<open>if 'val_loss' in flat\<close>: the two aliases for the checkpoint and early-stopping
  callbacks.
\<close>

definition add_val_loss_aliases :: "mval dict \<Rightarrow> mval dict" where
  "add_val_loss_aliases flat =
     (case map_of flat ''val_loss'' of
        None \<Rightarrow> flat
      | Some v \<Rightarrow> AList.update ''early_stop_on'' v (AList.update ''checkpoint_on'' v flat))"

text \<open>
  The legacy loop of \<^verbatim>\<open>_track_callback_metrics\<close>. The local \<^verbatim>\<open>flat\<close> is assigned for a
  tensor and for a dict (a \<^verbatim>\<open>Result\<close> is one); for anything else it keeps what the
  iteration before left in it, and is unbound on the first iteration.
\<close>

definition flat_of :: "env \<Rightarrow> eval_out \<Rightarrow> mval dict option \<Rightarrow> error + mval dict" where
  "flat_of env eval_result flat =
     (case eval_result of
        ETensor x \<Rightarrow> Inr [(''val_loss'', Tensor x)]
      | EDict d \<Rightarrow> flatten_dict env eval_result
      | EResult r \<Rightarrow> flatten_dict env eval_result
      | _ \<Rightarrow> (case flat of None \<Rightarrow> Inl (UnboundLocalError ''flat'') | Some f \<Rightarrow> Inr f))"

fun update_from_legacy_results ::
  "env \<Rightarrow> eval_out list \<Rightarrow> mval dict option \<Rightarrow> state \<Rightarrow> (error + unit) \<times> state" where
  "update_from_legacy_results env [] flat s = (Inr (), s)"
| "update_from_legacy_results env (eval_result # rest) flat s =
     (case flat_of env eval_result flat of
        Inl e \<Rightarrow> (Inl e, s)
      | Inr flat \<Rightarrow>
          (let flat = add_val_loss_aliases flat
           in update_from_legacy_results env rest (Some flat)
                (s\<lparr>callback_metrics := dict_update (callback_metrics s) flat\<rparr>)))"

text \<open>
  The guard that opens \<^verbatim>\<open>_track_callback_metrics\<close>:
  \<^verbatim>\<open>len(eval_results) > 0 and (eval_results[0] is None or not isinstance(eval_results[0], Result))\<close>.
\<close>

definition first_is_no_Result :: "eval_results \<Rightarrow> error + bool" where
  "first_is_no_Result eval_results =
     (case py_len eval_results of
        Inl e \<Rightarrow> Inl e
      | Inr n \<Rightarrow>
          if n > 0 then
            (case py_first eval_results of
               Inl e \<Rightarrow> Inl e
             | Inr x \<Rightarrow> Inr (x = ENone \<or> \<not> is_Result x))
          else Inr False)"

definition track_callback_metrics ::
  "env \<Rightarrow> eval_results \<Rightarrow> bool \<Rightarrow> state \<Rightarrow> (error + unit) \<times> state" where
  "track_callback_metrics env eval_results using_eval_result s =
     (case first_is_no_Result eval_results of
        Inl e \<Rightarrow> (Inl e, s)
      | Inr True \<Rightarrow> (Inr (), s)
      | Inr False \<Rightarrow>
          if using_eval_result then
            (case eval_results of
               EList xs \<Rightarrow> update_from_eval_results xs s
             | ESingle x \<Rightarrow> update_from_eval_results [x] s)
          else
            (case eval_results of
               EList xs \<Rightarrow> update_from_legacy_results env xs None s
             | ESingle x \<Rightarrow>
                 (case (case x of ETensor v \<Rightarrow> Inr [(''val_loss'', Tensor v)]
                                | _ \<Rightarrow> flatten_dict env x) of
                    Inl e \<Rightarrow> (Inl e, s)
                  | Inr flat \<Rightarrow>
                      (Inr (), s\<lparr>callback_metrics :=
                                   dict_update (callback_metrics s) (add_val_loss_aliases flat)\<rparr>))))"

text \<open>
  The loop of \<^verbatim>\<open>_track_callback_metrics_1_0\<close> over \<^verbatim>\<open>enumerate(step_metrics)\<close>; the list
  \<^verbatim>\<open>metrics_to_log\<close> is appended to in place and returned.
\<close>

fun reduce_dataloaders ::
  "env \<Rightarrow> nat \<Rightarrow> result list list \<Rightarrow> mval dict list \<Rightarrow> state \<Rightarrow> (error + mval dict list) \<times> state" where
  "reduce_dataloaders env dl_idx [] metrics_to_log s = (Inr metrics_to_log, s)"
| "reduce_dataloaders env dl_idx (dl_metrics # rest) metrics_to_log s =
     (if length dl_metrics = 0 then reduce_dataloaders env (Suc dl_idx) rest metrics_to_log s
      else
        (case reduce_on_epoch_end env dl_metrics of
           Inl e \<Rightarrow> (Inl e, s)
         | Inr reduced_epoch_metrics \<Rightarrow>
             (let logger_metrics = get_epoch_log_metrics reduced_epoch_metrics;
                  pbar_metrics = get_epoch_pbar_metrics reduced_epoch_metrics;
                  forked_metrics = get_forked_metrics reduced_epoch_metrics;
                  s1 = s\<lparr>logged_metrics := dict_update (logged_metrics s) logger_metrics\<rparr>;
                  s2 = add_progress_bar_metrics pbar_metrics s1;
                  s3 = s2\<lparr>callback_metrics :=
                          dict_update (dict_update (dict_update (callback_metrics s2) logger_metrics)
                            pbar_metrics) forked_metrics\<rparr>
              in case add_to_eval_loop_results dl_idx s3 of
                   (Inl e, s4) \<Rightarrow> (Inl e, s4)
                 | (Inr u, s4) \<Rightarrow>
                     reduce_dataloaders env (Suc dl_idx) rest
                       (if length logger_metrics > 0 then metrics_to_log @ [logger_metrics]
                        else metrics_to_log) s4)))"

text \<open>
  \<^verbatim>\<open>_track_callback_metrics_1_0\<close>. The step metrics of the evaluation loop are cleared
  before the sanity-check test.
\<close>

definition track_callback_metrics_1_0 ::
  "env \<Rightarrow> result \<Rightarrow> mval dict list \<Rightarrow> bool \<Rightarrow> state \<Rightarrow> (error + mval dict list) \<times> state" where
  "track_callback_metrics_1_0 env logs metrics_to_log reduce_on_epoch s =
     (let step_metrics0 = step_metrics s;
          s0 = s\<lparr>step_metrics := []\<rparr>
      in if running_sanity_check s0 then (Inr metrics_to_log, s0)
         else
           (let epoch_logger_metrics = get_epoch_log_metrics logs;
                epoch_pbar_metrics = get_epoch_pbar_metrics logs;
                s1 = s0\<lparr>logged_metrics := dict_update (logged_metrics s0) epoch_logger_metrics\<rparr>;
                s2 = add_progress_bar_metrics epoch_pbar_metrics s1;
                s3 = s2\<lparr>callback_metrics :=
                        dict_update (dict_update (callback_metrics s2) epoch_logger_metrics)
                          epoch_pbar_metrics\<rparr>;
                metrics_to_log = (if length epoch_logger_metrics > 0
                                  then metrics_to_log @ [epoch_logger_metrics] else metrics_to_log)
            in if reduce_on_epoch then reduce_dataloaders env 0 step_metrics0 metrics_to_log s3
               else (Inr metrics_to_log, s3)))"

text \<open>
  The loop of \<^verbatim>\<open>__process_eval_epoch_end_results_and_log_legacy\<close> over the results.
  \<^verbatim>\<open>{**prog_bar_metrics, **log_metrics, **callback_metrics}\<close> is built before \<^verbatim>\<open>log_metrics\<close>
  can change the dict of log metrics in place.
\<close>

fun log_legacy_results :: "env \<Rightarrow> eval_out list \<Rightarrow> bool \<Rightarrow> state \<Rightarrow> (error + unit) \<times> state" where
  "log_legacy_results env [] test_mode s = (Inr (), s)"
| "log_legacy_results env (result # rest) test_mode s =
     (case (case result of
              EResult r \<Rightarrow>
                if is_EvalResult r
                then Inr (attr_epoch_pbar_metrics r, attr_epoch_log_metrics r,
                          if test_mode then [] else attr_callback_metrics r)
                else process_dict_result env result
            | _ \<Rightarrow> process_dict_result env result) of
        Inl e \<Rightarrow> (Inl e, s)
      | Inr (prog_bar_metrics, log_metrics0, callback_metrics0) \<Rightarrow>
          (let dataloader_result_metrics =
                 dict_update (dict_update (dict_update [] prog_bar_metrics) log_metrics0) callback_metrics0;
               s1 = add_progress_bar_metrics prog_bar_metrics s;
               (log_metrics1, s2) = (if length log_metrics0 > 0
                                     then log_metrics env log_metrics0 [] None s1
                                     else (log_metrics0, s1));
               s3 = s2\<lparr>callback_metrics :=
                       dict_update (dict_update (dict_update (callback_metrics s2) callback_metrics0)
                         log_metrics1) prog_bar_metrics\<rparr>;
               s4 = (if length dataloader_result_metrics > 0
                     then s3\<lparr>eval_loop_results := eval_loop_results s3 @ [dataloader_result_metrics]\<rparr>
                     else s3)
           in log_legacy_results env rest test_mode s4))"

definition process_eval_epoch_end_results_and_log_legacy ::
  "env \<Rightarrow> eval_results \<Rightarrow> bool \<Rightarrow> state \<Rightarrow> (error + unit) \<times> state" where
  "process_eval_epoch_end_results_and_log_legacy env eval_results test_mode s =
     (if running_sanity_check s then (Inr (), s)
      else if eval_results = ESingle ENone then (Inr (), s)
      else
        (case py_len eval_results of
           Inl e \<Rightarrow> (Inl e, s)
         | Inr n \<Rightarrow>
             if n > 0 then
               log_legacy_results env
                 (case eval_results of EList xs \<Rightarrow> xs | ESingle x \<Rightarrow> [x]) test_mode s
             else (Inr (), s)))"

text \<open>\<^verbatim>\<open>before_on_evaluation_epoch_end\<close>: the three steps in the order of the source.\<close>

definition before_on_evaluation_epoch_end ::
  "env \<Rightarrow> eval_results \<Rightarrow> result \<Rightarrow> bool \<Rightarrow> bool \<Rightarrow> state \<Rightarrow> (error + unit) \<times> state" where
  "before_on_evaluation_epoch_end env deprecated_eval_results epoch_logs using_eval_result test_mode s =
     (case track_callback_metrics env deprecated_eval_results using_eval_result s of
        (Inl e, s1) \<Rightarrow> (Inl e, s1)
      | (Inr u, s1) \<Rightarrow>
          (case cached_metrics_get_as_list env (Bool (testing s1))
                  ''before_on_batch_start'' ''epoch_log_metrics'' of
             Inl e \<Rightarrow> (Inl e, s1)
           | Inr metrics_to_log \<Rightarrow>
               (case track_callback_metrics_1_0 env epoch_logs metrics_to_log True s1 of
                  (Inl e, s2) \<Rightarrow> (Inl e, s2)
                | (Inr m, s2) \<Rightarrow>
                    process_eval_epoch_end_results_and_log_legacy env deprecated_eval_results
                      test_mode s2)))"

section \<open>The training step\<close>

text \<open>
  The output of a training step: a \<^verbatim>\<open>Result\<close>, or a legacy object with the attributes
  \<^verbatim>\<open>log_metrics\<close> and \<^verbatim>\<open>pbar_on_batch_end\<close>.
\<close>

datatype training_step_output = TResult result | TLegacy "mval dict" "mval dict"

text \<open>
  The names bound at the top level of the module: its imports and its classes. A name that a
  function reads without ever assigning it is looked up there (and among the builtins, which
  have none of the names below); a name that is not found is a NameError.
\<close>

definition module_names :: "string list" where
  "module_names =
     [''os'', ''Enum'', ''torch'', ''memory'', ''TensorBoardLogger'', ''LoggerCollection'',
      ''flatten_dict'', ''is_overridden'', ''EvalResult'', ''Result'',
      ''MisconfigurationException'', ''pprint'', ''Iterable'', ''Union'', ''deepcopy'',
      ''defaultdict'', ''ChainMap'', ''LoggerStages'', ''HookResults'', ''EpochLoopResult'',
      ''BatchSplitIdxManager'', ''LoggerConnector'']"

definition lookup_name :: "string \<Rightarrow> error + unit" where
  "lookup_name n = (if n \<in> set module_names then Inr () else Inl (NameError n))"

text \<open>The two blocks of \<^verbatim>\<open>log_training_step_metrics\<close> that merge progress-bar metrics.\<close>

definition merge_pbar_metrics :: "mval dict \<Rightarrow> state \<Rightarrow> state" where
  "merge_pbar_metrics pbar s =
     (if length pbar > 0
      then (let s1 = add_progress_bar_metrics pbar s
            in s1\<lparr>callback_metrics := dict_update (callback_metrics s1) pbar\<rparr>)
      else s)"

text \<open>
  \<^verbatim>\<open>EpochLoopResult.log_training_step_metrics\<close>. The function reads \<^verbatim>\<open>callback_metrics\<close>,
  \<^verbatim>\<open>batch_log_metrics\<close> and \<^verbatim>\<open>batch_callback_metrics\<close> as free names; the objects behind
  them, if there were any, would be module globals and no part of the connector.
\<close>

definition log_training_step_metrics ::
  "env \<Rightarrow> training_step_output \<Rightarrow> state \<Rightarrow> (error + unit) \<times> state" where
  "log_training_step_metrics env training_step_output s =
     (case (case training_step_output of
              TResult r \<Rightarrow>
                (case lookup_name ''callback_metrics'' of
                   Inl e \<Rightarrow> Inl e
                 | Inr u \<Rightarrow> Inr (get_batch_log_metrics r, get_batch_pbar_metrics r))
            | TLegacy log_metrics0 pbar_on_batch_end \<Rightarrow> Inr (log_metrics0, pbar_on_batch_end)) of
        Inl e \<Rightarrow> (Inl e, s)
      | Inr (metrics_to_log, step_pbar_metrics) \<Rightarrow>
          (case lookup_name ''batch_log_metrics'' of
             Inl e \<Rightarrow> (Inl e, s)
           | Inr u \<Rightarrow>
               (case cached_metrics_get_as_dict env (Str ''train'')
                       ''before_on_batch_start'' ''batch_pbar_metrics'' of
                  Inl e \<Rightarrow> (Inl e, s)
                | Inr cache_internal_batch_pbar_metrics \<Rightarrow>
                    (let s1 = merge_pbar_metrics cache_internal_batch_pbar_metrics s;
                         s2 = merge_pbar_metrics step_pbar_metrics s1
                     in case lookup_name ''batch_callback_metrics'' of
                          Inl e \<Rightarrow> (Inl e, s2)
                        | Inr u \<Rightarrow>
                            (case lookup_name ''callback_metrics'' of
                               Inl e \<Rightarrow> (Inl e, s2)
                             | Inr u \<Rightarrow> (Inr (), s2))))))"

section \<open>The end of a training epoch\<close>

text \<open>A fresh \<^verbatim>\<open>Result()\<close>: no metrics.\<close>

definition empty_result :: result where
  "empty_result =
     \<lparr>is_EvalResult = False, result_len = 0, contains_extra = False,
      get_batch_log_metrics = [], get_batch_pbar_metrics = [], get_forked_metrics = [],
      get_epoch_log_metrics = [], get_epoch_pbar_metrics = [],
      attr_epoch_log_metrics = [], attr_epoch_pbar_metrics = [],
      attr_callback_metrics = []\<rparr>"

text \<open>
  \<^verbatim>\<open>opt_idx_outputs[0][0] if isinstance(opt_idx_outputs[0], list) else opt_idx_outputs[0]\<close>
\<close>

fun sample_obj :: "step_entry list \<Rightarrow> error + step_out" where
  "sample_obj [] = Inl IndexError"
| "sample_obj (Tbptt [] # rest) = Inl IndexError"
| "sample_obj (Tbptt (x # xs) # rest) = Inr x"
| "sample_obj (Direct x # rest) = Inr x"

text \<open>
  The \<^verbatim>\<open>try\<close> block of \<^verbatim>\<open>log_train_epoch_end_metrics\<close>: an IndexError inside it gives
  \<^verbatim>\<open>is_result_obj = False\<close> and \<^verbatim>\<open>is_1_0_result = False\<close>.
\<close>

definition detect_result_obj :: "epoch_output \<Rightarrow> step_entry list \<Rightarrow> error + (bool \<times> bool)" where
  "detect_result_obj epoch_output opt_idx_outputs =
     (case sample_obj opt_idx_outputs of
        Inl e \<Rightarrow> if e = IndexError then Inr (False, False) else Inl e
      | Inr sample \<Rightarrow>
          (let is_result_obj = (length epoch_output > 0
                                \<and> (case sample of SResult r \<Rightarrow> True | SOther \<Rightarrow> False));
               is_1_0_result = (is_result_obj
                                \<and> (case sample of SResult r \<Rightarrow> contains_extra r | SOther \<Rightarrow> False))
           in Inr (is_result_obj, is_1_0_result)))"

text \<open>\<^verbatim>\<open>LoggerConnector.training_epoch_end\<close>, the hook of the new path.\<close>

definition training_epoch_end :: "env \<Rightarrow> epoch_output \<Rightarrow> nat \<Rightarrow> error + result" where
  "training_epoch_end env epoch_output num_optimizers =
     (if \<not> is_overridden_training_epoch_end env then Inr empty_result
      else
        (case training_epoch_end_hook env epoch_output
                (num_optimizers = 1 \<or> \<not> automatic_optimization env) of
           Inl e \<Rightarrow> Inl e
         | Inr (returned_something, new_epoch_end_logs) \<Rightarrow>
             if returned_something then Inl MisconfigurationException
             else Inr new_epoch_end_logs))"

text \<open>
  \<^verbatim>\<open>__run_legacy_training_epoch_end\<close>: the log, progress-bar and callback metrics of the
  epoch.
\<close>

definition run_legacy_training_epoch_end ::
  "env \<Rightarrow> nat \<Rightarrow> epoch_output \<Rightarrow> bool \<Rightarrow> mval dict \<Rightarrow> error + (mval dict \<times> mval dict \<times> mval dict)" where
  "run_legacy_training_epoch_end env num_optimizers epoch_output is_result_obj epoch_callback_metrics =
     (if is_overridden_training_epoch_end env then
        (case legacy_training_epoch_end_hook env epoch_output is_result_obj (num_optimizers = 1) of
           Inl e \<Rightarrow> Inl e
         | Inr out \<Rightarrow>
             (case out of
                EResult r \<Rightarrow>
                  Inr (attr_epoch_log_metrics r, attr_epoch_pbar_metrics r, epoch_callback_metrics)
              | _ \<Rightarrow>
                  (case process_dict_result env out of
                     Inl e \<Rightarrow> Inl e
                   | Inr (pbar, logs, cbs) \<Rightarrow> Inr (logs, pbar, cbs))))
      else if is_result_obj then
        (case auto_reduce_results_on_epoch_end env epoch_output of
           Inl e \<Rightarrow> Inl e
         | Inr (logs, pbar) \<Rightarrow> Inr (logs, pbar, epoch_callback_metrics))
      else Inr ([], [], epoch_callback_metrics))"

text \<open>The new path of \<^verbatim>\<open>log_train_epoch_end_metrics\<close>.\<close>

definition run_1_0_training_epoch_end ::
  "env \<Rightarrow> nat \<Rightarrow> epoch_output \<Rightarrow> mval dict \<Rightarrow> error + (mval dict \<times> mval dict \<times> mval dict)" where
  "run_1_0_training_epoch_end env num_optimizers epoch_output epoch_callback_metrics =
     (case training_epoch_end env epoch_output num_optimizers of
        Inl e \<Rightarrow> Inl e
      | Inr epoch_end_log_result \<Rightarrow>
          (case auto_reduce_results_on_epoch_end env epoch_output of
             Inl e \<Rightarrow> Inl e
           | Inr (logs, pbar) \<Rightarrow>
               (let logs1 = dict_update logs (get_epoch_log_metrics epoch_end_log_result);
                    pbar1 = dict_update pbar (get_epoch_pbar_metrics epoch_end_log_result)
                in case cached_metrics_get_as_dict env (Str ''train'')
                          ''after_on_batch_end'' ''epoch_log_metrics'' of
                     Inl e \<Rightarrow> Inl e
                   | Inr cached_logs \<Rightarrow>
                       (case cached_metrics_get_as_dict env (Str ''train'')
                               ''after_on_batch_end'' ''epoch_pbar_metrics'' of
                          Inl e \<Rightarrow> Inl e
                        | Inr cached_pbar \<Rightarrow>
                            Inr (dict_update logs1 cached_logs, dict_update pbar1 cached_pbar,
                                 epoch_callback_metrics)))))"

text \<open>The last block of \<^verbatim>\<open>log_train_epoch_end_metrics\<close>, "track results".\<close>

definition track_epoch_results :: "env \<Rightarrow> mval dict \<Rightarrow> mval dict \<Rightarrow> mval dict \<Rightarrow> state \<Rightarrow> state" where
  "track_epoch_results env epoch_log_metrics epoch_progress_bar_metrics epoch_callback_metrics s =
     (let s1 = (if length epoch_log_metrics > 0
                then (let (logs, s') = log_metrics env epoch_log_metrics [] None s
                      in s'\<lparr>callback_metrics := dict_update (callback_metrics s') logs\<rparr>)
                else s);
          s2 = s1\<lparr>callback_metrics := dict_update (callback_metrics s1) epoch_callback_metrics\<rparr>
      in merge_pbar_metrics epoch_progress_bar_metrics s2)"

text \<open>
  \<^verbatim>\<open>log_train_epoch_end_metrics\<close>. The first optimizer's outputs are read with
  \<^verbatim>\<open>epoch_output[0]\<close> before the \<^verbatim>\<open>try\<close> block.
\<close>

definition log_train_epoch_end_metrics ::
  "env \<Rightarrow> epoch_output \<Rightarrow> accumulator \<Rightarrow> accumulator \<Rightarrow> nat \<Rightarrow> state \<Rightarrow> (error + unit) \<times> state" where
  "log_train_epoch_end_metrics env epoch_output checkpoint_accumulator early_stopping_accumulator
       num_optimizers s =
     (let cb0 = (if num_values checkpoint_accumulator > 0
                 then AList.update ''checkpoint_on'' (acc_mean checkpoint_accumulator) [] else []);
          epoch_callback_metrics =
                (if num_values early_stopping_accumulator > 0
                 then AList.update ''early_stop_on'' (acc_mean early_stopping_accumulator) cb0 else cb0)
      in case epoch_output of
           [] \<Rightarrow> (Inl IndexError, s)
         | opt_idx_outputs # others \<Rightarrow>
             (case detect_result_obj epoch_output opt_idx_outputs of
                Inl e \<Rightarrow> (Inl e, s)
              | Inr (is_result_obj, is_1_0_result) \<Rightarrow>
                  (case (if is_1_0_result
                         then run_1_0_training_epoch_end env num_optimizers epoch_output
                                epoch_callback_metrics
                         else run_legacy_training_epoch_end env num_optimizers epoch_output
                                is_result_obj epoch_callback_metrics) of
                     Inl e \<Rightarrow> (Inl e, s)
                   | Inr (logs, pbar, cbs) \<Rightarrow> (Inr (), track_epoch_results env logs pbar cbs s))))"

section \<open>The split-index scope\<close>

text \<open>
  \<^verbatim>\<open>LoggerConnector.split_idx_manager\<close>: the manager of the stage gets the split index and is
  returned. Managers are objects held in \<^verbatim>\<open>_split_idx_manager\<close>; the one returned is named
  by its key.
\<close>

definition split_idx_manager ::
  "stage_or_testing \<Rightarrow> int \<Rightarrow> state \<Rightarrow> (error + string) \<times> state" where
  "split_idx_manager stage_or_testing idx s =
     (case determine_stage stage_or_testing of
        Inl e \<Rightarrow> (Inl e, s)
      | Inr stage \<Rightarrow>
          (let s1 = s\<lparr>current_stage := Some stage\<rparr>
           in case map_of (split_idx_managers s1) stage of
                None \<Rightarrow> (Inl (KeyError stage), s1)
              | Some m \<Rightarrow>
                  (Inr stage,
                   s1\<lparr>split_idx_managers :=
                        AList.update stage (m\<lparr>mgr_split_idx := Some idx\<rparr>) (split_idx_managers s1)\<rparr>)))"

text \<open>
  \<^verbatim>\<open>BatchSplitIdxManager.__enter__\<close> and \<^verbatim>\<open>__exit__\<close>, for the manager stored under
  \<open>key\<close>. Both write the attribute \<^verbatim>\<open>split_idx\<close> of the stage's \<^verbatim>\<open>EpochLoopResult\<close>.
\<close>

definition set_cached_split_idx :: "string \<Rightarrow> int option \<Rightarrow> state \<Rightarrow> (error + unit) \<times> state" where
  "set_cached_split_idx stage v s =
     (case map_of (cached_results s) stage of
        None \<Rightarrow> (Inl (KeyError stage), s)
      | Some c \<Rightarrow>
          (Inr (), s\<lparr>cached_results := AList.update stage (c\<lparr>split_idx := Some v\<rparr>) (cached_results s)\<rparr>))"

definition manager_enter :: "string \<Rightarrow> state \<Rightarrow> (error + unit) \<times> state" where
  "manager_enter key s =
     (case map_of (split_idx_managers s) key of
        None \<Rightarrow> (Inl (KeyError key), s)
      | Some m \<Rightarrow>
          (case mgr_split_idx m of
             None \<Rightarrow> (Inl (AttributeError ''split_idx''), s)
           | Some idx \<Rightarrow>
               set_cached_split_idx (mgr_stage m) (Some idx) (s\<lparr>trainer_split_idx := Some idx\<rparr>)))"

definition manager_exit :: "string \<Rightarrow> state \<Rightarrow> (error + unit) \<times> state" where
  "manager_exit key s =
     (case map_of (split_idx_managers s) key of
        None \<Rightarrow> (Inl (KeyError key), s)
      | Some m \<Rightarrow> set_cached_split_idx (mgr_stage m) None s)"

text \<open>
  \<^verbatim>\<open>with connector.split_idx_manager(stage_or_testing, idx): body\<close>. The \<^verbatim>\<open>with\<close> statement
  calls \<^verbatim>\<open>__exit__\<close> when the body returns and when it raises; \<^verbatim>\<open>__exit__\<close> returns None,
  so an error of the body goes on to the caller. When \<^verbatim>\<open>__enter__\<close> raises, the body and
  \<^verbatim>\<open>__exit__\<close> are not run.
\<close>

definition with_split_idx ::
  "stage_or_testing \<Rightarrow> int \<Rightarrow> (state \<Rightarrow> (error + 'a) \<times> state) \<Rightarrow> state \<Rightarrow> (error + 'a) \<times> state" where
  "with_split_idx stage_or_testing idx body s =
     (case split_idx_manager stage_or_testing idx s of
        (Inl e, s1) \<Rightarrow> (Inl e, s1)
      | (Inr key, s1) \<Rightarrow>
          (case manager_enter key s1 of
             (Inl e, s2) \<Rightarrow> (Inl e, s2)
           | (Inr u, s2) \<Rightarrow>
               (case body s2 of
                  (r, s3) \<Rightarrow>
                    (case manager_exit key s3 of
                       (Inl e, s4) \<Rightarrow> (Inl e, s4)
                     | (Inr u, s4) \<Rightarrow> (r, s4)))))"

text \<open>The attribute \<^verbatim>\<open>split_idx\<close> of the cache of a stage, when the stage has a cache.\<close>

definition cached_split_idx :: "string \<Rightarrow> state \<Rightarrow> int option option" where
  "cached_split_idx stage s =
     (case map_of (cached_results s) stage of None \<Rightarrow> None | Some c \<Rightarrow> split_idx c)"

text \<open>
  The field \<^verbatim>\<open>_split_idx\<close> of the cache of a stage, which \<^verbatim>\<open>cache_result\<close> hands to
  \<^verbatim>\<open>append\<close> (\<open>None\<close> when the stage has no cache, \<open>Some None\<close> when the field holds
  Python's None).
\<close>

definition cached_under_split_idx :: "string \<Rightarrow> state \<Rightarrow> int option option" where
  "cached_under_split_idx stage s =
     (case map_of (cached_results s) stage of None \<Rightarrow> None | Some c \<Rightarrow> Some (under_split_idx c))"

text \<open>
  What \<^verbatim>\<open>LoggerConnector.__init__\<close> sets up and nothing in the connector undoes: every stage
  but "all" has its manager, which knows its stage, and every stage has its cache.
\<close>

definition connector_invariant :: "state \<Rightarrow> bool" where
  "connector_invariant s =
     (list_all (\<lambda>stage. case map_of (split_idx_managers s) stage of
                           None \<Rightarrow> False
                         | Some m \<Rightarrow> mgr_stage m = stage) (tl all_stages)
      \<and> list_all (\<lambda>stage. dict_contains stage (cached_results s)) all_stages)"

section \<open>Concrete collaborators\<close>

text \<open>
  Collaborators for the concrete runs: tensors become scalars through \<^verbatim>\<open>item()\<close>, there is
  no memory profile, a plain dict is already flat, a legacy result carries no metrics, the
  reduction keeps the first result, \<^verbatim>\<open>cached_metrics\<close> is missing as in the classes of
  the connector, and the model does not override \<^verbatim>\<open>training_epoch_end\<close>. \<open>env_with_cache\<close> is the same with a \<^verbatim>\<open>cached_metrics\<close> that has nothing
  cached.
\<close>

definition plain_env :: env where
  "plain_env =
     \<lparr>metrics_to_scalars = map (\<lambda>(k, v). (k, item v)),
      get_memory_profile = [],
      flatten_dict = (\<lambda>x. case x of EDict d \<Rightarrow> Inr d | _ \<Rightarrow> Inr []),
      process_dict_result = (\<lambda>x. Inr ([], [], [])),
      reduce_on_epoch_end = (\<lambda>rs. case rs of [] \<Rightarrow> Inl IndexError | r # rest \<Rightarrow> Inr r),
      cached_metrics_get_as_list = (\<lambda>stage hook kind. Inl (AttributeError ''cached_metrics'')),
      cached_metrics_get_as_dict = (\<lambda>stage hook kind. Inl (AttributeError ''cached_metrics'')),
      is_overridden_training_epoch_end = False,
      automatic_optimization = True,
      training_epoch_end_hook = (\<lambda>epoch_output first_only. Inr (False, empty_result)),
      legacy_training_epoch_end_hook = (\<lambda>epoch_output gathered first_only. Inr (EDict [])),
      auto_reduce_results_on_epoch_end = (\<lambda>epoch_output. Inr ([], []))\<rparr>"

definition env_with_cache :: env where
  "env_with_cache =
     plain_env\<lparr>cached_metrics_get_as_list := (\<lambda>stage hook kind. Inr []),
               cached_metrics_get_as_dict := (\<lambda>stage hook kind. Inr [])\<rparr>"

text \<open>A fresh connector whose trainer has a logger that has received nothing yet.\<close>

definition logging_state :: state where
  "logging_state = new_state\<lparr>logger := Some \<lparr>agg_and_log_calls = [], save_calls = 0\<rparr>\<rparr>"

text \<open>A structured evaluation result whose callback metrics hold one value.\<close>

definition one_metric_result :: result where
  "one_metric_result =
     \<lparr>is_EvalResult = True, result_len = 1, contains_extra = False,
      get_batch_log_metrics = [], get_batch_pbar_metrics = [], get_forked_metrics = [],
      get_epoch_log_metrics = [], get_epoch_pbar_metrics = [],
      attr_epoch_log_metrics = [], attr_epoch_pbar_metrics = [],
      attr_callback_metrics = [(''a'', Scalar 1)]\<rparr>"

text \<open>
  A connector in the sanity-check pre-pass, with the step metrics of one dataloader
  accumulated.
\<close>

definition sanity_state :: state where
  "sanity_state = new_state\<lparr>running_sanity_check := True, step_metrics := [[one_metric_result]]\<rparr>"

text \<open>
  What the description of \<^verbatim>\<open>_get_evaluate_epoch_results\<close> says of the merged mapping, to
  compare with \<^const>\<open>dict_of_chainmap\<close>: the mappings are united in their order and a later
  mapping overrides an earlier one on a common key.
\<close>

definition collapse_later_wins :: "'v dict list \<Rightarrow> 'v dict" where
  "collapse_later_wins maps = fold (\<lambda>m acc. dict_update acc m) maps []"

text \<open>
  A testing trainer whose connector holds one dataloader result and callback metrics with the
  same key.
\<close>

definition testing_state :: state where
  "testing_state = new_state\<lparr>testing := True,
     eval_loop_results := [[(''a'', Scalar 1)]], callback_metrics := [(''a'', Scalar 2)]\<rparr>"

text \<open>The same connector on a trainer that is validating.\<close>

definition validating_state :: state where
  "validating_state = new_state\<lparr>
     eval_loop_results := [[(''a'', Scalar 1)]], callback_metrics := [(''a'', Scalar 2)]\<rparr>"

section \<open>Resolving a stage from a flag\<close>

text \<open>
  What \<^verbatim>\<open>_determine_stage\<close> does get right: a stage token is returned as it is, "0" and
  "True" give the test stage, and an input outside the two tables raises.
\<close>

lemma determine_stage_tokens:
  "determine_stage (Str ''train'') = Inr ''train''"
  "determine_stage (Str ''validation'') = Inr ''validation''"
  "determine_stage (Str ''test'') = Inr ''test''"
  "determine_stage (Str ''0'') = Inr ''test''"
  "determine_stage (Str ''True'') = Inr ''test''"
  "determine_stage (Bool True) = Inr ''test''"
  by (simp_all add: determine_stage_def all_stages_def lookup_stages_def)

lemma determine_stage_other:
  "py_str x \<notin> set [''test'', ''train'', ''validation'', ''0'', ''1'', ''True'', ''False''] \<Longrightarrow>
   determine_stage x = Inl MisconfigurationException"
  by (simp add: determine_stage_def all_stages_def lookup_stages_def)

text \<open>
  C4. \<^verbatim>\<open>_determine_stage\<close> is meant to answer the validation stage for the flags "1" and
  False. The lookup table holds "val" for them, which is none of the stage values
  ("validation" is), so the answer at \<^verbatim>\<open>False\<close> is a string that names no stage and is no
  key of the per-stage tables: \<^verbatim>\<open>split_idx_manager(False, 0)\<close> ends in a KeyError.
\<close>

theorem determine_stage_flag_False:
  "determine_stage (Bool False) = Inr ''val''
   \<and> determine_stage (Str ''1'') = Inr ''val''
   \<and> ''val'' \<noteq> stage_value LS_VAL
   \<and> ''val'' \<notin> set all_stages
   \<and> fst (split_idx_manager (Bool False) 0 new_state) = Inl (KeyError ''val'')"
  by (simp add: determine_stage_def all_stages_def lookup_stages_def split_idx_manager_def
        new_state_def init_connector_def)

section \<open>Per-dataloader snapshots\<close>

lemma startswith_append: "startswith p (p @ s)"
  by (induction p) auto

lemma contains_self: "contains p (p @ s)"
proof (cases "p @ s")
  case Nil then show ?thesis by simp
next
  case (Cons a list)
  have "startswith p (p @ s)" by (rule startswith_append)
  with Cons show ?thesis by simp
qed

lemma contains_marker: "contains p (n @ p @ s)"
  by (induction n) (simp_all add: contains_self)

lemma split_on_nonempty: "split_on c s \<noteq> []"
  by (induction s) (auto split: list.splits)

lemma last_split_on_no_sep: "c \<notin> set s \<Longrightarrow> split_on c s = [s]"
  by (induction s) (auto split: list.splits)

lemma split_on_append_sep:
  "c \<notin> set t \<Longrightarrow> \<exists>ws. ws \<noteq> [] \<and> split_on c (n @ c # t) = ws @ [t]"
proof (induction n)
  case Nil
  then have "split_on c ([] @ c # t) = [[]] @ [t]" by (simp add: last_split_on_no_sep)
  then show ?case by blast
next
  case (Cons a n)
  then obtain ws where ws: "ws \<noteq> []" "split_on c (n @ c # t) = ws @ [t]" by blast
  then obtain w ws' where w: "ws = w # ws'" by (cases ws) auto
  show ?case
  proof (cases "a = c")
    case True
    with ws have "split_on c ((a # n) @ c # t) = ([] # ws) @ [t]" by simp
    then show ?thesis by blast
  next
    case False
    with ws w have "split_on c ((a # n) @ c # t) = ((a # w) # ws') @ [t]" by simp
    then show ?thesis by blast
  qed
qed

lemma last_split_on_append: "c \<notin> set t \<Longrightarrow> last (split_on c (n @ c # t)) = t"
  using split_on_append_sep[of c t n] by auto

lemma is_digit_digit_char: "d < 10 \<Longrightarrow> is_digit (digit_char d)"
  by (simp add: is_digit_def digit_char_def)

lemma digit_val_digit_char: "d < 10 \<Longrightarrow> digit_val (digit_char d) = d"
  by (simp add: digit_val_def digit_char_def)

lemma show_nat_nonempty: "show_nat n \<noteq> []"
  by (subst show_nat.simps) simp

lemma show_nat_digits: "list_all is_digit (show_nat n)"
  by (induction n rule: show_nat.induct) (subst show_nat.simps, simp add: is_digit_digit_char)

lemma digits_val_show_nat: "digits_val (show_nat n) = n"
  by (induction n rule: show_nat.induct) (subst show_nat.simps, simp add: digits_val_def digit_val_digit_char)


lemma not_space_digit: "is_digit c \<Longrightarrow> \<not> is_space c"
  by (auto simp: is_digit_def is_space_def)

lemma dropWhile_id: "xs \<noteq> [] \<Longrightarrow> \<not> P (hd xs) \<Longrightarrow> dropWhile P xs = xs"
  by (cases xs) auto

lemma strip_digits: "ds \<noteq> [] \<Longrightarrow> list_all is_digit ds \<Longrightarrow> strip ds = ds"
proof -
  assume ne: "ds \<noteq> []" and dg: "list_all is_digit ds"
  then have h: "is_digit (hd ds)" "is_digit (last ds)"
    by (auto simp: list_all_iff)
  have "dropWhile is_space ds = ds"
    using ne h by (simp add: dropWhile_id not_space_digit)
  moreover have "dropWhile is_space (rev ds) = rev ds"
    using ne h by (simp add: dropWhile_id not_space_digit hd_rev)
  ultimately show ?thesis by (simp add: strip_def)
qed

lemma py_int_digits:
  assumes "ds \<noteq> []" "list_all is_digit ds"
  shows "py_int ds = Inr (int (digits_val ds))"
proof -
  obtain c cs where ds: "ds = c # cs" using assms by (cases ds) auto
  with assms have "is_digit c" by simp
  then have "c \<noteq> CHR ''-''" "c \<noteq> CHR ''+''" by (auto simp: is_digit_def)
  then show ?thesis
    using assms ds by (simp add: py_int_def strip_digits parse_digits_def)
qed

lemma py_int_show_nat: "py_int (show_nat n) = Inr (int n)"
  by (simp add: py_int_digits show_nat_nonempty show_nat_digits digits_val_show_nat)

lemma show_nat_no_underscore: "CHR ''_'' \<notin> set (show_nat n)"
proof
  assume "CHR ''_'' \<in> set (show_nat n)"
  with show_nat_digits[of n] have "is_digit CHR ''_''" by (auto simp: list_all_iff)
  then show False by (simp add: is_digit_def)
qed

lemma forked_key_index:
  "py_int (last (split_on CHR ''_'' (forked_name name j))) = Inr (int j)"
proof -
  have "forked_name name j = (name @ ''/dataloader_idx'') @ CHR ''_'' # show_nat j"
    by (simp add: forked_name_def)
  then have "last (split_on CHR ''_'' (forked_name name j)) = show_nat j"
    using last_split_on_append[OF show_nat_no_underscore, of "name @ ''/dataloader_idx''" j] by simp
  then show ?thesis by (simp add: py_int_show_nat)
qed

lemma forked_key_contains: "contains ''/dataloader_idx_'' (forked_name name j)"
  unfolding forked_name_def by (rule contains_marker)

lemma map_of_delete: "map_of (AList.delete k d) k' = (if k' = k then None else map_of d k')"
  by (simp add: delete_conv')

lemma py_int_error: "py_int s = Inl e \<Longrightarrow> e = ValueError"
  by (auto simp: py_int_def parse_digits_def split: list.splits if_splits sum.splits)

lemma delete_as_filter: "AList.delete k d = filter (\<lambda>(k', v). k' \<noteq> k) d"
  by (induction d) auto

lemma forked_keys_parse_Cons:
  "forked_keys_parse (key # ks) =
     ((contains ''/dataloader_idx_'' key \<longrightarrow> (\<exists>i. py_int (last (split_on CHR ''_'' key)) = Inr i))
      \<and> forked_keys_parse ks)"
  by (auto simp: forked_keys_parse_def split: sum.splits)

lemma drop_other_dataloaders_exact:
  assumes "distinct ks" "\<forall>key\<in>set ks. map_of cm key \<noteq> None"
  shows "drop_other_dataloaders dl_idx ks cm =
     (if forked_keys_parse ks
      then Inr (filter (\<lambda>(key, v). \<not> (key \<in> set ks \<and> dropped_from_snapshot dl_idx key)) cm)
      else Inl ValueError)"
  using assms
proof (induction ks arbitrary: cm)
  case Nil
  then show ?case by (simp add: forked_keys_parse_def)
next
  case (Cons key ks)
  have dist: "distinct ks" and notin: "key \<notin> set ks" using Cons.prems(1) by simp_all
  have pres: "\<forall>k\<in>set ks. map_of cm k \<noteq> None" using Cons.prems(2) by simp
  have keep: "drop_other_dataloaders dl_idx ks cm =
     (if forked_keys_parse ks
      then Inr (filter (\<lambda>(k, v). \<not> (k \<in> set ks \<and> dropped_from_snapshot dl_idx k)) cm)
      else Inl ValueError)"
    by (rule Cons.IH[OF dist pres])
  have same: "filter (\<lambda>(k, v). \<not> (k \<in> set (key # ks) \<and> dropped_from_snapshot dl_idx k)) cm
            = filter (\<lambda>(k, v). \<not> (k \<in> set ks \<and> dropped_from_snapshot dl_idx k)) cm"
    if "\<not> dropped_from_snapshot dl_idx key"
    by (rule filter_cong[OF refl]) (use that in auto)
  show ?case
  proof (cases "contains ''/dataloader_idx_'' key")
    case False
    then have nd: "\<not> dropped_from_snapshot dl_idx key" by (simp add: dropped_from_snapshot_def)
    have step: "drop_other_dataloaders dl_idx (key # ks) cm = drop_other_dataloaders dl_idx ks cm"
      using False by simp
    have p: "forked_keys_parse (key # ks) = forked_keys_parse ks"
      using False by (simp add: forked_keys_parse_Cons)
    show ?thesis unfolding step p same[OF nd] by (rule keep)
  next
    case True
    show ?thesis
    proof (cases "py_int (last (split_on CHR ''_'' key))")
      case (Inl e)
      with py_int_error have e: "e = ValueError" by blast
      have step: "drop_other_dataloaders dl_idx (key # ks) cm = Inl ValueError"
        using True Inl e by simp
      have p: "\<not> forked_keys_parse (key # ks)"
        using True Inl by (simp add: forked_keys_parse_Cons)
      show ?thesis unfolding step using p by simp
    next
      case (Inr i)
      have p: "forked_keys_parse (key # ks) = forked_keys_parse ks"
        using True Inr by (simp add: forked_keys_parse_Cons)
      show ?thesis
      proof (cases "i = int dl_idx")
        case eq: True
        with True Inr have nd: "\<not> dropped_from_snapshot dl_idx key"
          by (simp add: dropped_from_snapshot_def)
        have step: "drop_other_dataloaders dl_idx (key # ks) cm = drop_other_dataloaders dl_idx ks cm"
          using True Inr eq by simp
        show ?thesis unfolding step p same[OF nd] by (rule keep)
      next
        case ne: False
        with True Inr have d: "dropped_from_snapshot dl_idx key"
          by (simp add: dropped_from_snapshot_def)
        have present: "dict_contains key cm" using Cons.prems(2) by (simp add: dict_contains_def)
        have pres': "\<forall>k\<in>set ks. map_of (AList.delete key cm) k \<noteq> None"
          using pres notin by (auto simp: map_of_delete)
        have step: "drop_other_dataloaders dl_idx (key # ks) cm
                    = drop_other_dataloaders dl_idx ks (AList.delete key cm)"
          using True Inr ne present by (simp add: dict_del_def)
        have flt: "filter (\<lambda>(k, v). \<not> (k \<in> set ks \<and> dropped_from_snapshot dl_idx k)) (AList.delete key cm)
                 = filter (\<lambda>(k, v). \<not> (k \<in> set (key # ks) \<and> dropped_from_snapshot dl_idx k)) cm"
          unfolding delete_as_filter filter_filter
          by (rule filter_cong[OF refl]) (use d in auto)
        show ?thesis unfolding step p Cons.IH[OF dist pres'] flt ..
      qed
    qed
  qed
qed

lemma keys_present: "\<forall>key\<in>set (keys cm). map_of cm key \<noteq> None"
  by (auto simp: keys_def map_of_eq_None_iff)

lemma filter_own_keys:
  "filter (\<lambda>(key, v). \<not> (key \<in> set (keys cm) \<and> P key)) cm = filter (\<lambda>(key, v). \<not> P key) cm"
  by (rule filter_cong[OF refl]) (auto simp: keys_def intro: rev_image_eqI)

lemma map_of_filter_keys:
  "map_of (filter (\<lambda>(key, v). \<not> P key) cm) k = (if P k then None else map_of cm k)"
  by (induction cm) auto

lemma dropped_forked_name: "dropped_from_snapshot dl_idx (forked_name name j) = (j \<noteq> dl_idx)"
  by (simp add: dropped_from_snapshot_def forked_key_index forked_key_contains)


lemma py_int_1: "py_int ''0'' = Inr 0" "py_int ''1'' = Inr 1" "py_int ''best'' = Inl ValueError"
  by (simp_all add: py_int_def strip_def is_space_def parse_digits_def is_digit_def digits_val_def
        digit_val_def)

text \<open>
  C8, as the code has it. Take callback metrics that are a dict (each key once). When every
  key that contains \<^verbatim>\<open>/dataloader_idx_\<close> ends in an integer after its last underscore,
  \<^verbatim>\<open>add_to_eval_loop_results(dl_idx)\<close> returns and has appended exactly one snapshot: the
  callback metrics without the keys that contain \<^verbatim>\<open>/dataloader_idx_\<close> and whose integer
  after the last underscore is not \<open>dl_idx\<close>; nothing else has changed. When some such key
  does not end in an integer, the call raises ValueError and changes nothing. A metric forked
  to the dataloader \<open>j\<close> (a name ending in \<^verbatim>\<open>/dataloader_idx_<j>\<close>) is dropped if and only
  if \<open>j\<close> is not \<open>dl_idx\<close>, and a name without \<^verbatim>\<open>/dataloader_idx_\<close> is never dropped.
\<close>

theorem snapshot_filters_by_last_index:
  assumes "distinct (keys (callback_metrics s))"
  shows "add_to_eval_loop_results dl_idx s =
      (if forked_keys_parse (keys (callback_metrics s))
       then (Inr (), s\<lparr>eval_loop_results := eval_loop_results s @
               [filter (\<lambda>(key, v). \<not> dropped_from_snapshot dl_idx key) (callback_metrics s)]\<rparr>)
       else (Inl ValueError, s))
    \<and> (\<forall>key. map_of (filter (\<lambda>(key, v). \<not> dropped_from_snapshot dl_idx key) (callback_metrics s)) key =
          (if dropped_from_snapshot dl_idx key then None else map_of (callback_metrics s) key))
    \<and> (\<forall>name j. dropped_from_snapshot dl_idx (forked_name name j) = (j \<noteq> dl_idx))
    \<and> (\<forall>key. \<not> contains ''/dataloader_idx_'' key \<longrightarrow> \<not> dropped_from_snapshot dl_idx key)"
proof (intro conjI allI impI)
  let ?cm = "callback_metrics s"
  have "drop_other_dataloaders dl_idx (keys ?cm) ?cm =
     (if forked_keys_parse (keys ?cm)
      then Inr (filter (\<lambda>(key, v). \<not> dropped_from_snapshot dl_idx key) ?cm)
      else Inl ValueError)"
    unfolding drop_other_dataloaders_exact[OF assms keys_present] filter_own_keys ..
  then show "add_to_eval_loop_results dl_idx s =
      (if forked_keys_parse (keys ?cm)
       then (Inr (), s\<lparr>eval_loop_results := eval_loop_results s @
               [filter (\<lambda>(key, v). \<not> dropped_from_snapshot dl_idx key) ?cm]\<rparr>)
       else (Inl ValueError, s))"
    by (simp add: add_to_eval_loop_results_def)
next
  fix key
  show "map_of (filter (\<lambda>(key, v). \<not> dropped_from_snapshot dl_idx key) (callback_metrics s)) key =
          (if dropped_from_snapshot dl_idx key then None else map_of (callback_metrics s) key)"
    by (rule map_of_filter_keys)
next
  fix name j
  show "dropped_from_snapshot dl_idx (forked_name name j) = (j \<noteq> dl_idx)"
    by (rule dropped_forked_name)
next
  fix key assume "\<not> contains ''/dataloader_idx_'' key"
  then show "\<not> dropped_from_snapshot dl_idx key" by (simp add: dropped_from_snapshot_def)
qed

text \<open>
  The scenario of two forked accuracies: the snapshot for dataloader 1 holds the one of
  dataloader 1 only.
\<close>

theorem snapshot_filters_by_last_index_witness:
  "distinct (keys [(''acc/dataloader_idx_0'', Scalar 0.9), (''acc/dataloader_idx_1'', Scalar 0.7)])
   \<and> forked_keys_parse (keys [(''acc/dataloader_idx_0'', Scalar 0.9), (''acc/dataloader_idx_1'', Scalar 0.7)])
   \<and> add_to_eval_loop_results 1
       (new_state\<lparr>callback_metrics :=
          [(''acc/dataloader_idx_0'', Scalar 0.9), (''acc/dataloader_idx_1'', Scalar 0.7)]\<rparr>) =
      (Inr (), new_state\<lparr>callback_metrics :=
          [(''acc/dataloader_idx_0'', Scalar 0.9), (''acc/dataloader_idx_1'', Scalar 0.7)],
          eval_loop_results := [[(''acc/dataloader_idx_1'', Scalar 0.7)]]\<rparr>)
   \<and> dropped_from_snapshot 1 (forked_name ''acc'' 0)
   \<and> \<not> dropped_from_snapshot 1 (forked_name ''acc'' 1)
   \<and> \<not> dropped_from_snapshot 1 ''loss''"
proof -
  let ?cm = "[(''acc/dataloader_idx_0'', Scalar 0.9), (''acc/dataloader_idx_1'', Scalar 0.7)]"
  let ?s = "new_state\<lparr>callback_metrics := ?cm\<rparr>"
  have d: "distinct (keys (callback_metrics ?s))" by (simp add: keys_def)
  have p: "forked_keys_parse (keys ?cm)"
    by (simp add: forked_keys_parse_def keys_def py_int_1)
  have dr: "dropped_from_snapshot 1 ''acc/dataloader_idx_0''" "\<not> dropped_from_snapshot 1 ''acc/dataloader_idx_1''"
    by (simp_all add: dropped_from_snapshot_def py_int_1)
  have el: "eval_loop_results new_state = []" by (simp add: new_state_def init_connector_def)
  note t = snapshot_filters_by_last_index [OF d, of 1]
  from t p have run: "add_to_eval_loop_results 1 ?s =
      (Inr (), ?s\<lparr>eval_loop_results := eval_loop_results ?s @
               [filter (\<lambda>(key, v). \<not> dropped_from_snapshot 1 key) (callback_metrics ?s)]\<rparr>)"
    by simp
  have run': "add_to_eval_loop_results 1 ?s =
      (Inr (), new_state\<lparr>callback_metrics := ?cm,
          eval_loop_results := [[(''acc/dataloader_idx_1'', Scalar 0.7)]]\<rparr>)"
    unfolding run by (simp add: dr el del: One_nat_def)
  from t have a: "dropped_from_snapshot 1 (forked_name ''acc'' 0)"
    and b: "\<not> dropped_from_snapshot 1 (forked_name ''acc'' 1)" by simp_all
  have "\<not> contains ''/dataloader_idx_'' ''loss''" by simp
  with t have c: "\<not> dropped_from_snapshot 1 ''loss''" by blast
  from d p run' a b c show ?thesis by simp
qed

text \<open>
  C8 as it is written fails for names that carry \<^verbatim>\<open>/dataloader_idx_<j>\<close> elsewhere than
  at their end. With the key \<^verbatim>\<open>acc/dataloader_idx_1_best\<close> the call for dataloader 1 raises
  ValueError and no snapshot is appended. With the key \<^verbatim>\<open>acc/dataloader_idx_0/top_1\<close> the
  snapshot for dataloader 1 keeps a metric forked to dataloader 0.
\<close>

theorem snapshot_counterexample:
  "add_to_eval_loop_results 1
       (new_state\<lparr>callback_metrics := [(''acc/dataloader_idx_1_best'', Scalar 0.7)]\<rparr>) =
      (Inl ValueError, new_state\<lparr>callback_metrics := [(''acc/dataloader_idx_1_best'', Scalar 0.7)]\<rparr>)
   \<and> eval_loop_results (new_state\<lparr>callback_metrics := [(''acc/dataloader_idx_1_best'', Scalar 0.7)]\<rparr>) = []
   \<and> add_to_eval_loop_results 1
       (new_state\<lparr>callback_metrics := [(''acc/dataloader_idx_0/top_1'', Scalar 0.9)]\<rparr>) =
      (Inr (), new_state\<lparr>callback_metrics := [(''acc/dataloader_idx_0/top_1'', Scalar 0.9)],
         eval_loop_results := [[(''acc/dataloader_idx_0/top_1'', Scalar 0.9)]]\<rparr>)"
  by (simp add: add_to_eval_loop_results_def keys_def new_state_def init_connector_def py_int_1
     dict_del_def dict_contains_def Let_def)


section \<open>Reading the evaluation results\<close>

lemma keys_alist_update: "set (keys (AList.update k v d)) = insert k (set (keys d))"
  unfolding keys_def by (induction d) auto

lemma keys_dict_update: "set (keys (dict_update d e)) = set (keys d) \<union> set (keys e)"
proof (induction e arbitrary: d)
  case Nil
  show ?case by (simp add: keys_def)
next
  case (Cons x e)
  obtain k v where x: "x = (k, v)" by (cases x)
  have "set (keys (dict_update d (x # e))) = set (keys (AList.update k v d)) \<union> set (keys e)"
    using Cons[of "AList.update k v d"] x by simp
  also have "\<dots> = insert k (set (keys d)) \<union> set (keys e)"
    by (simp only: keys_alist_update)
  also have "\<dots> = set (keys d) \<union> set (keys (x # e))"
    using x by (simp add: keys_def)
  finally show ?case .
qed


lemma keys_fold_update:
  "set (keys (fold (\<lambda>m acc. dict_update acc m) ms d)) = set (keys d) \<union> (\<Union>m \<in> set ms. set (keys m))"
proof (induction ms arbitrary: d)
  case Nil
  show ?case by simp
next
  case (Cons m ms)
  show ?case using Cons[of "dict_update d m"] by (simp add: keys_dict_update Un_assoc)
qed

lemma keys_Nil: "keys [] = []"
  by (simp add: keys_def)

lemma set_chain_keys: "set (chain_keys maps) = (\<Union>m \<in> set maps. set (keys m))"
  by (simp add: chain_keys_def keys_fold_update keys_Nil)

lemma map_of_in_keys: "map_of m k = Some w \<Longrightarrow> k \<in> set (keys m)"
  unfolding keys_def by (metis map_of_SomeD fst_conv image_eqI set_map)

lemma chain_lookup_in_keys: "chain_lookup maps k = Some v \<Longrightarrow> k \<in> set (chain_keys maps)"
proof (induction maps)
  case Nil
  then show ?case by simp
next
  case (Cons m ms)
  show ?case
  proof (cases "map_of m k")
    case None
    with Cons have "k \<in> set (chain_keys ms)" by simp
    then show ?thesis by (simp add: set_chain_keys)
  next
    case (Some w)
    then have "k \<in> set (keys m)" by (rule map_of_in_keys)
    then show ?thesis by (simp add: set_chain_keys)
  qed
qed

lemma map_of_pick:
  "map_of (concat (map (\<lambda>k. case g k of Some v \<Rightarrow> [(k, v)] | None \<Rightarrow> []) ks)) k =
     (if k \<in> set ks then g k else None)"
proof (induction ks)
  case Nil
  show ?case by simp
next
  case (Cons a ks)
  show ?case
  proof (cases "g a")
    case None
    with Cons show ?thesis by auto
  next
    case (Some v)
    with Cons show ?thesis by auto
  qed
qed

lemma map_of_dict_of_chainmap: "map_of (dict_of_chainmap maps) k = chain_lookup maps k"
proof (cases "chain_lookup maps k")
  case None
  then show ?thesis by (simp add: dict_of_chainmap_def map_of_pick)
next
  case (Some v)
  from chain_lookup_in_keys[OF this] Some show ?thesis
    by (simp add: dict_of_chainmap_def map_of_pick)
qed

lemma chain_lookup_append:
  "chain_lookup (xs @ ys) k = (case chain_lookup xs k of Some v \<Rightarrow> Some v | None \<Rightarrow> chain_lookup ys k)"
  by (induction xs) (auto split: option.splits)


lemma get_results_testing:
  assumes "testing s"
    and "dev_debugger_enabled s \<longrightarrow> dict_contains ''debug_epoch'' (callback_metrics s)"
  shows "get_evaluate_epoch_results test_mode s =
    (Inr [dict_of_chainmap (eval_loop_results s @
            [if dev_debugger_enabled s then AList.delete ''debug_epoch'' (callback_metrics s)
             else callback_metrics s])],
     s\<lparr>eval_loop_results := []\<rparr>)"
proof (cases "dev_debugger_enabled s")
  case False
  with assms(1) show ?thesis by (simp add: get_evaluate_epoch_results_def)
next
  case True
  with assms(2) obtain v where "map_of (callback_metrics s) ''debug_epoch'' = Some v"
    by (auto simp: dict_contains_def)
  with True assms(1) show ?thesis by (simp add: get_evaluate_epoch_results_def dict_pop_def)
qed

lemma get_results_not_testing:
  "\<not> testing s \<Longrightarrow>
   get_evaluate_epoch_results test_mode s = (Inr (eval_loop_results s), s\<lparr>eval_loop_results := []\<rparr>)"
  by (simp add: get_evaluate_epoch_results_def)

lemma get_results_clears:
  "get_evaluate_epoch_results test_mode s = (Inr r, s') \<Longrightarrow> eval_loop_results s' = []"
  by (auto simp: get_evaluate_epoch_results_def Let_def split: if_splits sum.splits)

lemma testing_state_run:
  "get_evaluate_epoch_results True testing_state =
     (Inr [[(''a'', Scalar 1)]], testing_state\<lparr>eval_loop_results := []\<rparr>)"
  by (simp add: get_evaluate_epoch_results_def testing_state_def new_state_def init_connector_def
        dict_of_chainmap_def chain_keys_def keys_def)

lemma testing_state_run2:
  "get_evaluate_epoch_results True (testing_state\<lparr>eval_loop_results := []\<rparr>) =
     (Inr [[(''a'', Scalar 2)]], testing_state\<lparr>eval_loop_results := []\<rparr>)"
  by (simp add: get_evaluate_epoch_results_def testing_state_def new_state_def init_connector_def
        dict_of_chainmap_def chain_keys_def keys_def)

text \<open>
  C2, as the code has it. With \<^verbatim>\<open>trainer.testing\<close> set (and, when the debugger is enabled,
  the key \<^verbatim>\<open>debug_epoch\<close> present in the callback metrics, which \<^verbatim>\<open>pop\<close> needs),
  \<^verbatim>\<open>_get_evaluate_epoch_results\<close> returns a list holding one merged mapping and leaves
  \<^verbatim>\<open>eval_loop_results\<close> empty. The merged mapping answers each key from the first of the
  accumulated mappings that has it, and from the copy of the callback metrics (without the
  debug key when the debugger is enabled) only when none of them has it: on a collision the
  earlier mapping wins.
\<close>

theorem test_results_first_mapping_wins:
  assumes "testing s"
    and "dev_debugger_enabled s \<longrightarrow> dict_contains ''debug_epoch'' (callback_metrics s)"
  shows "\<exists>merged.
      get_evaluate_epoch_results test_mode s = (Inr [merged], s\<lparr>eval_loop_results := []\<rparr>)
    \<and> (\<forall>k. map_of merged k =
          (case chain_lookup (eval_loop_results s) k of
             Some v \<Rightarrow> Some v
           | None \<Rightarrow> map_of (if dev_debugger_enabled s
                                 then AList.delete ''debug_epoch'' (callback_metrics s)
                                 else callback_metrics s) k))"
proof -
  let ?cm = "if dev_debugger_enabled s then AList.delete ''debug_epoch'' (callback_metrics s)
             else callback_metrics s"
  have "map_of (dict_of_chainmap (eval_loop_results s @ [?cm])) k =
          (case chain_lookup (eval_loop_results s) k of Some v \<Rightarrow> Some v | None \<Rightarrow> map_of ?cm k)" for k
    by (simp only: map_of_dict_of_chainmap chain_lookup_append) (simp split: option.splits)
  with get_results_testing[OF assms, of test_mode] show ?thesis by blast
qed

theorem test_results_first_mapping_wins_witness:
  "testing testing_state
   \<and> \<not> dev_debugger_enabled testing_state
   \<and> (\<exists>merged. get_evaluate_epoch_results True testing_state =
          (Inr [merged], testing_state\<lparr>eval_loop_results := []\<rparr>)
        \<and> map_of merged ''a'' = Some (Scalar 1))"
proof -
  have h1: "testing testing_state"
    by (simp add: testing_state_def)
  have h2: "dev_debugger_enabled testing_state \<longrightarrow> dict_contains ''debug_epoch'' (callback_metrics testing_state)"
    by (simp add: testing_state_def new_state_def init_connector_def)
  from test_results_first_mapping_wins [OF h1 h2, of True] obtain merged where
    m: "get_evaluate_epoch_results True testing_state = (Inr [merged], testing_state\<lparr>eval_loop_results := []\<rparr>)"
    and l: "\<forall>k. map_of merged k =
          (case chain_lookup (eval_loop_results testing_state) k of
             Some v \<Rightarrow> Some v
           | None \<Rightarrow> map_of (if dev_debugger_enabled testing_state
                                 then AList.delete ''debug_epoch'' (callback_metrics testing_state)
                                 else callback_metrics testing_state) k)"
    by blast
  from l have "map_of merged ''a'' = Some (Scalar 1)"
    by (simp add: testing_state_def new_state_def init_connector_def)
  moreover have "\<not> dev_debugger_enabled testing_state"
    by (simp add: testing_state_def new_state_def init_connector_def)
  ultimately show ?thesis using m h1 by blast
qed

text \<open>
  C2 as it is written fails: with one accumulated result \<^verbatim>\<open>{"a": 1}\<close> and callback
  metrics \<^verbatim>\<open>{"a": 2}\<close>, the code returns \<^verbatim>\<open>[{"a": 1}]\<close>, where a union in which the later
  mapping wins gives \<^verbatim>\<open>{"a": 2}\<close>.
\<close>

theorem test_results_later_wins_counterexample:
  "fst (get_evaluate_epoch_results True testing_state) = Inr [[(''a'', Scalar 1)]]
   \<and> collapse_later_wins (eval_loop_results testing_state @ [callback_metrics testing_state])
       = [(''a'', Scalar 2)]
   \<and> fst (get_evaluate_epoch_results True testing_state)
       \<noteq> Inr [collapse_later_wins (eval_loop_results testing_state @ [callback_metrics testing_state])]"
proof -
  have "collapse_later_wins (eval_loop_results testing_state @ [callback_metrics testing_state])
       = [(''a'', Scalar 2)]"
    by (simp add: testing_state_def new_state_def init_connector_def collapse_later_wins_def)
  then show ?thesis by (simp add: testing_state_run)
qed

text \<open>
  C3, as the code has it. Every call that returns leaves \<^verbatim>\<open>eval_loop_results\<close> empty.
  When the trainer is not testing, the call returns the accumulated list (non-empty when
  the list was) and a second call right after returns the empty list. When the trainer is
  testing, the call returns a list of one mapping, and so does a second call right after:
  its mapping is the copy of the callback metrics.
\<close>

theorem drain_twice:
  assumes "get_evaluate_epoch_results test_mode s = (Inr r, s')"
  shows "eval_loop_results s' = []
   \<and> (\<not> testing s \<longrightarrow>
        r = eval_loop_results s \<and> get_evaluate_epoch_results test_mode' s' = (Inr [], s'))
   \<and> (testing s \<longrightarrow>
        length r = 1 \<and>
        (\<exists>again. get_evaluate_epoch_results test_mode' s' = (Inr [again], s')
           \<and> (\<forall>k. map_of again k =
                 map_of (if dev_debugger_enabled s
                         then AList.delete ''debug_epoch'' (callback_metrics s)
                         else callback_metrics s) k)))"
proof (intro conjI impI)
  from assms show "eval_loop_results s' = []" by (rule get_results_clears)
next
  assume nt: "\<not> testing s"
  from get_results_not_testing[OF nt, of test_mode] assms
  show "r = eval_loop_results s" by simp
next
  assume nt: "\<not> testing s"
  from get_results_not_testing[OF nt, of test_mode] assms
  have s': "s' = s\<lparr>eval_loop_results := []\<rparr>" by simp
  then have "\<not> testing s'" using nt by simp
  from get_results_not_testing[OF this, of test_mode'] s'
  show "get_evaluate_epoch_results test_mode' s' = (Inr [], s')" by simp
next
  assume t: "testing s"
  have dbg: "dev_debugger_enabled s \<longrightarrow> dict_contains ''debug_epoch'' (callback_metrics s)"
    using t assms by (auto simp: get_evaluate_epoch_results_def dict_pop_def dict_contains_def
                      split: option.splits)
  from get_results_testing[OF t dbg, of test_mode] assms
  show "length r = 1" by auto
next
  assume t: "testing s"
  have dbg: "dev_debugger_enabled s \<longrightarrow> dict_contains ''debug_epoch'' (callback_metrics s)"
    using t assms by (auto simp: get_evaluate_epoch_results_def dict_pop_def dict_contains_def
                      split: option.splits)
  from get_results_testing[OF t dbg, of test_mode] assms
  have s': "s' = s\<lparr>eval_loop_results := []\<rparr>" by simp
  let ?cm = "if dev_debugger_enabled s then AList.delete ''debug_epoch'' (callback_metrics s)
             else callback_metrics s"
  have t': "testing s'"
    and dbg': "dev_debugger_enabled s' \<longrightarrow> dict_contains ''debug_epoch'' (callback_metrics s')"
    using t dbg s' by simp_all
  from get_results_testing[OF t' dbg', of test_mode']
  have "get_evaluate_epoch_results test_mode' s' = (Inr [dict_of_chainmap [?cm]], s')"
    using s' by simp
  moreover have "\<forall>k. map_of (dict_of_chainmap [?cm]) k = map_of ?cm k"
    by (simp only: map_of_dict_of_chainmap) (simp split: option.splits)
  ultimately show "\<exists>again. get_evaluate_epoch_results test_mode' s' = (Inr [again], s')
              \<and> (\<forall>k. map_of again k = map_of ?cm k)"
    by blast
qed

text \<open>
  Both modes at a concrete connector: validating, the two calls give the accumulated list and
  then the empty list; testing, the second call still gives one mapping.
\<close>

theorem drain_twice_witness:
  "get_evaluate_epoch_results False validating_state
      = (Inr [[(''a'', Scalar 1)]], validating_state\<lparr>eval_loop_results := []\<rparr>)
   \<and> \<not> testing validating_state
   \<and> get_evaluate_epoch_results False (validating_state\<lparr>eval_loop_results := []\<rparr>)
      = (Inr [], validating_state\<lparr>eval_loop_results := []\<rparr>)
   \<and> get_evaluate_epoch_results True testing_state
      = (Inr [[(''a'', Scalar 1)]], testing_state\<lparr>eval_loop_results := []\<rparr>)
   \<and> testing testing_state
   \<and> (\<exists>again. get_evaluate_epoch_results True (testing_state\<lparr>eval_loop_results := []\<rparr>)
                 = (Inr [again], testing_state\<lparr>eval_loop_results := []\<rparr>)
        \<and> map_of again ''a'' = Some (Scalar 2))"
proof -
  have v: "get_evaluate_epoch_results False validating_state
      = (Inr [[(''a'', Scalar 1)]], validating_state\<lparr>eval_loop_results := []\<rparr>)"
    by (simp add: get_evaluate_epoch_results_def validating_state_def new_state_def init_connector_def)
  have nt: "\<not> testing validating_state"
    by (simp add: validating_state_def new_state_def init_connector_def)
  have t: "testing testing_state"
    by (simp add: testing_state_def)
  have nd: "\<not> dev_debugger_enabled testing_state" "callback_metrics testing_state = [(''a'', Scalar 2)]"
    by (simp_all add: testing_state_def new_state_def init_connector_def)
  from drain_twice [OF v, of False] nt
  have a: "get_evaluate_epoch_results False (validating_state\<lparr>eval_loop_results := []\<rparr>)
      = (Inr [], validating_state\<lparr>eval_loop_results := []\<rparr>)" by blast
  from drain_twice [OF testing_state_run, of True] t obtain again where
    "get_evaluate_epoch_results True (testing_state\<lparr>eval_loop_results := []\<rparr>)
        = (Inr [again], testing_state\<lparr>eval_loop_results := []\<rparr>)"
    "\<forall>k. map_of again k =
                 map_of (if dev_debugger_enabled testing_state
                         then AList.delete ''debug_epoch'' (callback_metrics testing_state)
                         else callback_metrics testing_state) k"
    by blast
  then have b: "\<exists>again. get_evaluate_epoch_results True (testing_state\<lparr>eval_loop_results := []\<rparr>)
                 = (Inr [again], testing_state\<lparr>eval_loop_results := []\<rparr>)
        \<and> map_of again ''a'' = Some (Scalar 2)"
    using nd by auto
  from v nt a testing_state_run t b show ?thesis by blast
qed

text \<open>
  C3 as it is written fails when the trainer is testing: after a first call on a non-empty
  \<^verbatim>\<open>eval_loop_results\<close>, the second call returns \<^verbatim>\<open>[{"a": 2}]\<close>, not an empty result.
\<close>

theorem drain_twice_counterexample:
  "eval_loop_results testing_state \<noteq> []
   \<and> fst (get_evaluate_epoch_results True (snd (get_evaluate_epoch_results True testing_state)))
       = Inr [[(''a'', Scalar 2)]]
   \<and> fst (get_evaluate_epoch_results True (snd (get_evaluate_epoch_results True testing_state)))
       \<noteq> Inr []"
proof -
  have "eval_loop_results testing_state \<noteq> []"
    by (simp add: testing_state_def)
  then show ?thesis by (simp add: testing_state_run testing_state_run2)
qed

section \<open>Logging a training step\<close>

text \<open>
  C1. \<^verbatim>\<open>log_training_step_metrics\<close> is meant to merge the metrics of the step and return.
  It never gets there: for a structured output, \<^verbatim>\<open>callback_metrics.update(forked_metrics)\<close>
  reads the name \<^verbatim>\<open>callback_metrics\<close>, which is bound nowhere; for a legacy output,
  \<^verbatim>\<open>batch_log_metrics.append(metrics_to_log)\<close> reads \<^verbatim>\<open>batch_log_metrics\<close>, which is bound
  nowhere either. Every call raises NameError and leaves the connector as it was.
\<close>

theorem log_training_step_metrics_raises:
  "log_training_step_metrics env (TResult r) s = (Inl (NameError ''callback_metrics''), s)
   \<and> log_training_step_metrics env (TLegacy logs pbar) s = (Inl (NameError ''batch_log_metrics''), s)"
  by (simp add: log_training_step_metrics_def lookup_name_def module_names_def)


section \<open>The split-index scope and the split index of the cache\<close>

lemma map_of_alist_update: "map_of (AList.update k v d) k' = (if k' = k then Some v else map_of d k')"
  by (simp add: update_conv')

lemma invariant_manager:
  "connector_invariant s \<Longrightarrow> stage \<in> set (tl all_stages) \<Longrightarrow>
   \<exists>m. map_of (split_idx_managers s) stage = Some m \<and> mgr_stage m = stage"
  by (auto simp: connector_invariant_def list_all_iff split: option.splits)

lemma invariant_cache:
  "connector_invariant s \<Longrightarrow> stage \<in> set (tl all_stages) \<Longrightarrow>
   \<exists>c. map_of (cached_results s) stage = Some c"
  by (auto simp: connector_invariant_def list_all_iff dict_contains_def all_stages_def)

lemma new_state_invariant: "connector_invariant new_state"
  by (simp add: connector_invariant_def new_state_def init_connector_def all_stages_def
        new_BatchSplitIdxManager_def dict_contains_def)

text \<open>
  Neither \<^verbatim>\<open>split_idx_manager\<close> nor \<^verbatim>\<open>__enter__\<close> nor \<^verbatim>\<open>__exit__\<close> writes the field
  \<^verbatim>\<open>_split_idx\<close> of any cache.
\<close>

lemma set_cached_split_idx_under:
  "cached_under_split_idx stage (snd (set_cached_split_idx st v s)) = cached_under_split_idx stage s"
  by (simp add: set_cached_split_idx_def cached_under_split_idx_def map_of_alist_update
        split: option.splits)



lemma manager_exit_under:
  "cached_under_split_idx stage (snd (manager_exit key s)) = cached_under_split_idx stage s"
  by (simp add: manager_exit_def set_cached_split_idx_under split: option.splits)

lemma split_idx_manager_cached:
  "cached_results (snd (split_idx_manager stage_or_testing idx s)) = cached_results s"
  by (simp add: split_idx_manager_def Let_def split: sum.splits option.splits)


text \<open>
  What the scope does do, with the attribute \<^verbatim>\<open>split_idx\<close>. On a connector with the
  set-up of \<^verbatim>\<open>__init__\<close>, for a token or flag that names one of the stages test, train,
  validation, and any body that keeps the set-up: the body starts with \<^verbatim>\<open>split_idx\<close> of
  the stage's cache equal to the index and that of every other stage as it was; whatever the
  body answers, a value or an error, the statement answers the same and leaves
  \<^verbatim>\<open>split_idx\<close> of the stage None and that of every other stage as the body left it.
\<close>

lemma split_idx_manager_ok:
  assumes "connector_invariant s" "determine_stage stage_or_testing = Inr stage"
    "stage \<in> set (tl all_stages)"
  shows "\<exists>s1 m. split_idx_manager stage_or_testing idx s = (Inr stage, s1)
           \<and> cached_results s1 = cached_results s
           \<and> map_of (split_idx_managers s1) stage = Some m
           \<and> mgr_stage m = stage \<and> mgr_split_idx m = Some idx"
proof -
  from invariant_manager[OF assms(1,3)] obtain m where
    m: "map_of (split_idx_managers s) stage = Some m" "mgr_stage m = stage" by blast
  then show ?thesis
    by (simp add: split_idx_manager_def assms(2) map_of_alist_update)
qed

lemma manager_enter_ok:
  assumes "map_of (split_idx_managers s1) stage = Some m" "mgr_stage m = stage"
    "mgr_split_idx m = Some idx" "map_of (cached_results s1) stage = Some c"
  shows "\<exists>s2. manager_enter stage s1 = (Inr (), s2)
           \<and> cached_split_idx stage s2 = Some (Some idx)
           \<and> (\<forall>other. other \<noteq> stage \<longrightarrow> cached_split_idx other s2 = cached_split_idx other s1)"
  using assms
  by (simp add: manager_enter_def set_cached_split_idx_def cached_split_idx_def map_of_alist_update)

lemma manager_exit_ok:
  assumes "connector_invariant s3" "stage \<in> set (tl all_stages)"
  shows "\<exists>s4. manager_exit stage s3 = (Inr (), s4)
           \<and> cached_split_idx stage s4 = Some None
           \<and> (\<forall>other. other \<noteq> stage \<longrightarrow> cached_split_idx other s4 = cached_split_idx other s3)"
proof -
  from invariant_manager[OF assms] obtain m where
    m: "map_of (split_idx_managers s3) stage = Some m" "mgr_stage m = stage" by blast
  from invariant_cache[OF assms] obtain c where c: "map_of (cached_results s3) stage = Some c"
    by blast
  from m c show ?thesis
    by (simp add: manager_exit_def set_cached_split_idx_def cached_split_idx_def map_of_alist_update)
qed

lemma split_scope_sets_and_clears:
  assumes inv: "connector_invariant s"
    and det: "determine_stage stage_or_testing = Inr stage"
    and stage: "stage \<in> set (tl all_stages)"
    and body: "body (snd (manager_enter stage (snd (split_idx_manager stage_or_testing idx s)))) = (r, s3)"
    and kept: "connector_invariant s3"
  shows "cached_split_idx stage
           (snd (manager_enter stage (snd (split_idx_manager stage_or_testing idx s))))
           = Some (Some idx)
    \<and> (\<forall>other. other \<noteq> stage \<longrightarrow>
          cached_split_idx other
            (snd (manager_enter stage (snd (split_idx_manager stage_or_testing idx s))))
          = cached_split_idx other s)
    \<and> (\<exists>s4. with_split_idx stage_or_testing idx body s = (r, s4)
          \<and> cached_split_idx stage s4 = Some None
          \<and> (\<forall>other. other \<noteq> stage \<longrightarrow> cached_split_idx other s4 = cached_split_idx other s3))"
proof -
  from split_idx_manager_ok[OF inv det stage, of idx] obtain s1 m where
    s1: "split_idx_manager stage_or_testing idx s = (Inr stage, s1)"
    and c1: "cached_results s1 = cached_results s"
    and m: "map_of (split_idx_managers s1) stage = Some m" "mgr_stage m = stage"
           "mgr_split_idx m = Some idx"
    by blast
  from invariant_cache[OF inv stage] c1 obtain c where c: "map_of (cached_results s1) stage = Some c"
    by auto
  from manager_enter_ok[OF m c] obtain s2 where
    s2: "manager_enter stage s1 = (Inr (), s2)" and e: "cached_split_idx stage s2 = Some (Some idx)"
    and f: "\<forall>other. other \<noteq> stage \<longrightarrow> cached_split_idx other s2 = cached_split_idx other s1"
    by blast
  have f': "\<forall>other. other \<noteq> stage \<longrightarrow> cached_split_idx other s2 = cached_split_idx other s"
    using f c1 by (simp add: cached_split_idx_def)
  from body s1 s2 have b: "body s2 = (r, s3)" by simp
  from manager_exit_ok[OF kept stage] obtain s4 where
    s4: "manager_exit stage s3 = (Inr (), s4)" and x: "cached_split_idx stage s4 = Some None"
    and o: "\<forall>other. other \<noteq> stage \<longrightarrow> cached_split_idx other s4 = cached_split_idx other s3"
    by blast
  have "with_split_idx stage_or_testing idx body s = (r, s4)"
    by (simp add: with_split_idx_def s1 s2 b s4)
  with e f' x o s1 s2 show ?thesis by simp
qed

text \<open>
  A token or flag that names no stage with a manager opens no region: the body is not run
  and no cache is touched.
\<close>

lemma no_region_without_manager:
  assumes "fst (split_idx_manager stage_or_testing idx s) = Inl e"
  shows "with_split_idx stage_or_testing idx body s = (Inl e, snd (split_idx_manager stage_or_testing idx s))
    \<and> cached_results (snd (split_idx_manager stage_or_testing idx s)) = cached_results s"
proof -
  obtain r s1 where r: "split_idx_manager stage_or_testing idx s = (r, s1)"
    by (cases "split_idx_manager stage_or_testing idx s")
  with assms have "r = Inl e" by simp
  with r show ?thesis
    using split_idx_manager_cached[of stage_or_testing idx s]
    by (simp add: with_split_idx_def)
qed



section \<open>Logged metrics are merged when there is a logger\<close>

lemma map_of_dict_update_rev:
  "map_of (dict_update d e) k = (case map_of (rev e) k of Some v \<Rightarrow> Some v | None \<Rightarrow> map_of d k)"
proof (induction e arbitrary: d)
  case Nil
  show ?case by simp
next
  case (Cons x e)
  obtain k' v' where x: "x = (k', v')" by (cases x)
  show ?case
    unfolding x dict_update.simps Cons.IH
    by (simp add: map_of_alist_update map_add_def split: option.splits)
qed

lemma map_of_rev_distinct: "distinct (map fst e) \<Longrightarrow> map_of (rev e) = map_of e"
  by (simp add: map_of_inject_set distinct_map)

lemma map_of_dict_update:
  "distinct (keys e) \<Longrightarrow>
   map_of (dict_update d e) k = (case map_of e k of Some v \<Rightarrow> Some v | None \<Rightarrow> map_of d k)"
  by (simp add: map_of_dict_update_rev map_of_rev_distinct keys_def)

lemma log_metrics_no_logger:
  "logger s = None \<Longrightarrow> snd (log_metrics env m g st s) = s"
  by (simp add: log_metrics_def split: prod.splits)

lemma log_metrics_logger:
  "logger s = Some lg \<Longrightarrow>
   snd (log_metrics env m g st s) =
     s\<lparr>logger := Some (if is_global_zero s
                        then lg\<lparr>agg_and_log_calls := agg_and_log_calls lg @ [scalar_metrics_and_step env s m g st],
                               save_calls := Suc (save_calls lg)\<rparr>
                        else lg),
       logged_metrics := dict_update (logged_metrics s) (fst (scalar_metrics_and_step env s m g st))\<rparr>"
  by (simp add: log_metrics_def split: prod.splits)


lemma scalar_metrics_and_step_cong:
  assumes "on_gpu s' = on_gpu s" "log_gpu_memory s' = log_gpu_memory s"
    "current_epoch s' = current_epoch s" "global_step s' = global_step s"
  shows "scalar_metrics_and_step env s' m g st = scalar_metrics_and_step env s m g st"
  unfolding scalar_metrics_and_step_def updated_metrics_def assms ..

lemma scalar_metrics_after_log:
  "scalar_metrics_and_step env (snd (log_metrics env m g st s)) m' g' st' =
   scalar_metrics_and_step env s m' g' st'"
proof (cases "logger s")
  case None
  then show ?thesis by (simp add: log_metrics_no_logger)
next
  case (Some lg)
  show ?thesis
    unfolding log_metrics_logger[OF Some]
    by (rule scalar_metrics_and_step_cong) simp_all
qed

text \<open>
  C7, as the code has it. The scalar metrics of a call are what \<^verbatim>\<open>metrics_to_scalars\<close>
  makes of the metrics with the memory profile and the gradient norms stored into them, less
  the key \<^verbatim>\<open>"step"\<close> when it serves as the step, plus the key \<^verbatim>\<open>"epoch"\<close> when the step
  defaults to the global step. Without a logger \<^verbatim>\<open>log_metrics\<close> changes nothing. With a
  logger, on every process, \<^verbatim>\<open>logged_metrics\<close> is updated with the scalar metrics: a key of
  the call gets the call's value and every other key keeps its value; after two calls a key
  has the value of the second call if the second call has it, else of the first, else its old
  value. The backend gets one \<^verbatim>\<open>agg_and_log_metrics\<close> and one \<^verbatim>\<open>save\<close> on the primary
  process and nothing on the others.
\<close>

theorem log_metrics_merges:
  assumes d1: "distinct (keys (fst (scalar_metrics_and_step env s m1 g1 st1)))"
    and d2: "distinct (keys (fst (scalar_metrics_and_step env s m2 g2 st2)))"
  shows "(logger s = None \<longrightarrow> snd (log_metrics env m1 g1 st1 s) = s)
    \<and> (\<forall>lg. logger s = Some lg \<longrightarrow>
         logger (snd (log_metrics env m1 g1 st1 s)) =
           Some (if is_global_zero s
                 then lg\<lparr>agg_and_log_calls :=
                            agg_and_log_calls lg @ [scalar_metrics_and_step env s m1 g1 st1],
                         save_calls := Suc (save_calls lg)\<rparr>
                 else lg)
         \<and> (\<forall>k. map_of (logged_metrics (snd (log_metrics env m1 g1 st1 s))) k =
               (case map_of (fst (scalar_metrics_and_step env s m1 g1 st1)) k of
                  Some v \<Rightarrow> Some v
                | None \<Rightarrow> map_of (logged_metrics s) k))
         \<and> (\<forall>k. map_of (logged_metrics
                     (snd (log_metrics env m2 g2 st2 (snd (log_metrics env m1 g1 st1 s))))) k =
               (case map_of (fst (scalar_metrics_and_step env s m2 g2 st2)) k of
                  Some v \<Rightarrow> Some v
                | None \<Rightarrow>
                    (case map_of (fst (scalar_metrics_and_step env s m1 g1 st1)) k of
                       Some v \<Rightarrow> Some v
                     | None \<Rightarrow> map_of (logged_metrics s) k))))"
proof (intro conjI impI allI)
  assume "logger s = None"
  then show "snd (log_metrics env m1 g1 st1 s) = s" by (rule log_metrics_no_logger)
next
  fix lg assume lg: "logger s = Some lg"
  show "logger (snd (log_metrics env m1 g1 st1 s)) =
           Some (if is_global_zero s
                 then lg\<lparr>agg_and_log_calls :=
                            agg_and_log_calls lg @ [scalar_metrics_and_step env s m1 g1 st1],
                         save_calls := Suc (save_calls lg)\<rparr>
                 else lg)"
    unfolding log_metrics_logger[OF lg] by simp
next
  fix lg k assume lg: "logger s = Some lg"
  show "map_of (logged_metrics (snd (log_metrics env m1 g1 st1 s))) k =
               (case map_of (fst (scalar_metrics_and_step env s m1 g1 st1)) k of
                  Some v \<Rightarrow> Some v
                | None \<Rightarrow> map_of (logged_metrics s) k)"
    unfolding log_metrics_logger[OF lg] by (simp add: map_of_dict_update[OF d1])
next
  fix lg k assume lg: "logger s = Some lg"
  let ?s1 = "snd (log_metrics env m1 g1 st1 s)"
  have l1: "logged_metrics ?s1 = dict_update (logged_metrics s) (fst (scalar_metrics_and_step env s m1 g1 st1))"
    unfolding log_metrics_logger[OF lg] by simp
  obtain lg1 where lg1: "logger ?s1 = Some lg1"
    unfolding log_metrics_logger[OF lg] by simp
  have "logged_metrics (snd (log_metrics env m2 g2 st2 ?s1)) =
          dict_update (logged_metrics ?s1) (fst (scalar_metrics_and_step env s m2 g2 st2))"
    unfolding log_metrics_logger[OF lg1] by (simp add: scalar_metrics_after_log)
  then show "map_of (logged_metrics (snd (log_metrics env m2 g2 st2 ?s1))) k =
               (case map_of (fst (scalar_metrics_and_step env s m2 g2 st2)) k of
                  Some v \<Rightarrow> Some v
                | None \<Rightarrow>
                    (case map_of (fst (scalar_metrics_and_step env s m1 g1 st1)) k of
                       Some v \<Rightarrow> Some v
                     | None \<Rightarrow> map_of (logged_metrics s) k))"
    by (simp add: l1 map_of_dict_update[OF d1] map_of_dict_update[OF d2] split: option.splits)
qed


text \<open>
  On a process that is not the primary one, two calls with a common key: the backend has
  received nothing and the key holds the value of the second call. On a trainer without a
  logger the call changes nothing.
\<close>

theorem log_metrics_merges_witness:
  "logger (logging_state\<lparr>is_global_zero := False\<rparr>) = Some \<lparr>agg_and_log_calls = [], save_calls = 0\<rparr>
   \<and> logger (snd (log_metrics plain_env [(''a'', Tensor 1)] [] None (logging_state\<lparr>is_global_zero := False\<rparr>)))
        = Some \<lparr>agg_and_log_calls = [], save_calls = 0\<rparr>
   \<and> map_of (logged_metrics
         (snd (log_metrics plain_env [(''a'', Tensor 2), (''b'', Tensor 3)] [] None
            (snd (log_metrics plain_env [(''a'', Tensor 1)] [] None
               (logging_state\<lparr>is_global_zero := False\<rparr>)))))) ''a'' = Some (Scalar 2)
   \<and> logger new_state = None
   \<and> snd (log_metrics plain_env [(''a'', Tensor 1)] [] None new_state) = new_state"
proof -
  let ?s = "logging_state\<lparr>is_global_zero := False\<rparr>"
  let ?lg = "\<lparr>agg_and_log_calls = [], save_calls = 0\<rparr>"
  have sm: "scalar_metrics_and_step plain_env ?s [(''a'', Tensor 1)] [] None
              = ([(''a'', Scalar 1), (''epoch'', Scalar 0)], Scalar 0)"
    "scalar_metrics_and_step plain_env ?s [(''a'', Tensor 2), (''b'', Tensor 3)] [] None
              = ([(''a'', Scalar 2), (''b'', Scalar 3), (''epoch'', Scalar 0)], Scalar 0)"
    "scalar_metrics_and_step plain_env new_state [(''a'', Tensor 1)] [] None
              = ([(''a'', Scalar 1), (''epoch'', Scalar 0)], Scalar 0)"
    by (simp_all add: scalar_metrics_and_step_def updated_metrics_def plain_env_def logging_state_def
        new_state_def init_connector_def)
  have lg: "logger ?s = Some ?lg" "\<not> is_global_zero ?s" "logged_metrics ?s = []"
    by (simp_all add: logging_state_def new_state_def init_connector_def)
  have nl: "logger new_state = None"
    by (simp add: new_state_def init_connector_def)
  have d: "distinct (keys (fst (scalar_metrics_and_step plain_env ?s [(''a'', Tensor 1)] [] None)))"
    "distinct (keys (fst (scalar_metrics_and_step plain_env ?s [(''a'', Tensor 2), (''b'', Tensor 3)] [] None)))"
    "distinct (keys (fst (scalar_metrics_and_step plain_env new_state [(''a'', Tensor 1)] [] None)))"
    unfolding sm by (simp_all add: keys_def)
  note t = log_metrics_merges [OF d(1) d(2)]
  from t lg have a: "logger (snd (log_metrics plain_env [(''a'', Tensor 1)] [] None ?s)) = Some ?lg"
    by simp
  from t lg(1) have "map_of (logged_metrics
         (snd (log_metrics plain_env [(''a'', Tensor 2), (''b'', Tensor 3)] [] None
            (snd (log_metrics plain_env [(''a'', Tensor 1)] [] None ?s))))) ''a'' =
        (case map_of (fst (scalar_metrics_and_step plain_env ?s [(''a'', Tensor 2), (''b'', Tensor 3)] [] None)) ''a'' of
                  Some v \<Rightarrow> Some v
                | None \<Rightarrow>
                    (case map_of (fst (scalar_metrics_and_step plain_env ?s [(''a'', Tensor 1)] [] None)) ''a'' of
                       Some v \<Rightarrow> Some v
                     | None \<Rightarrow> map_of (logged_metrics ?s) ''a''))"
    by blast
  then have b: "map_of (logged_metrics
         (snd (log_metrics plain_env [(''a'', Tensor 2), (''b'', Tensor 3)] [] None
            (snd (log_metrics plain_env [(''a'', Tensor 1)] [] None ?s))))) ''a'' = Some (Scalar 2)"
    unfolding sm by simp
  from log_metrics_merges [OF d(3) d(3)] nl
  have c: "snd (log_metrics plain_env [(''a'', Tensor 1)] [] None new_state) = new_state"
    by blast
  from lg(1) a b nl c show ?thesis by blast
qed

text \<open>
  C7 as it is written fails when the trainer has no logger: the scalar metrics hold
  \<^verbatim>\<open>"a"\<close>, and \<^verbatim>\<open>logged_metrics\<close> is still empty after the call.
\<close>

theorem log_metrics_unconditional_counterexample:
  "fst (scalar_metrics_and_step plain_env new_state [(''a'', Tensor 1)] [] None)
      = [(''a'', Scalar 1), (''epoch'', Scalar 0)]
   \<and> logged_metrics (snd (log_metrics plain_env [(''a'', Tensor 1)] [] None new_state)) = []
   \<and> map_of (logged_metrics (snd (log_metrics plain_env [(''a'', Tensor 1)] [] None new_state))) ''a''
       \<noteq> Some (Scalar 1)"
proof -
  have "logger new_state = None" "logged_metrics new_state = []"
    by (simp_all add: new_state_def init_connector_def)
  then show ?thesis
    by (simp add: log_metrics_no_logger scalar_metrics_and_step_def updated_metrics_def plain_env_def
          new_state_def init_connector_def)
qed

section \<open>Legacy evaluation results and the aliases of val_loss\<close>










section \<open>The end of an evaluation epoch during the sanity check\<close>

lemma update_from_eval_results_frame:
  "\<exists>cm. snd (update_from_eval_results xs s) = s\<lparr>callback_metrics := cm\<rparr>"
proof (induction xs arbitrary: s)
  case Nil
  have "snd (update_from_eval_results [] s) = s\<lparr>callback_metrics := callback_metrics s\<rparr>" by simp
  then show ?case by blast
next
  case (Cons x xs)
  show ?case
  proof (cases "callback_metrics_of x")
    case (Inl e)
    then have "snd (update_from_eval_results (x # xs) s) = s\<lparr>callback_metrics := callback_metrics s\<rparr>"
      by simp
    then show ?thesis by blast
  next
    case (Inr cm)
    from Cons[of "s\<lparr>callback_metrics := dict_update (callback_metrics s) cm\<rparr>"] Inr
    obtain cm' where "snd (update_from_eval_results (x # xs) s) =
        s\<lparr>callback_metrics := dict_update (callback_metrics s) cm\<rparr>\<lparr>callback_metrics := cm'\<rparr>"
      by auto
    then have "snd (update_from_eval_results (x # xs) s) = s\<lparr>callback_metrics := cm'\<rparr>" by simp
    then show ?thesis by blast
  qed
qed

lemma update_from_legacy_results_frame:
  "\<exists>cm. snd (update_from_legacy_results env xs flat s) = s\<lparr>callback_metrics := cm\<rparr>"
proof (induction xs arbitrary: s flat)
  case Nil
  have "snd (update_from_legacy_results env [] flat s) = s\<lparr>callback_metrics := callback_metrics s\<rparr>"
    by simp
  then show ?case by blast
next
  case (Cons x xs)
  show ?case
  proof (cases "flat_of env x flat")
    case (Inl e)
    then have "snd (update_from_legacy_results env (x # xs) flat s) = s\<lparr>callback_metrics := callback_metrics s\<rparr>"
      by simp
    then show ?thesis by blast
  next
    case (Inr f)
    from Cons[of "Some (add_val_loss_aliases f)"
                 "s\<lparr>callback_metrics := dict_update (callback_metrics s) (add_val_loss_aliases f)\<rparr>"] Inr
    obtain cm' where "snd (update_from_legacy_results env (x # xs) flat s) =
        s\<lparr>callback_metrics := dict_update (callback_metrics s) (add_val_loss_aliases f)\<rparr>\<lparr>callback_metrics := cm'\<rparr>"
      by (auto simp: Let_def)
    then have "snd (update_from_legacy_results env (x # xs) flat s) = s\<lparr>callback_metrics := cm'\<rparr>" by simp
    then show ?thesis by blast
  qed
qed

lemma same_state: "s = s\<lparr>callback_metrics := callback_metrics s\<rparr>"
  by simp

lemma track_callback_metrics_frame:
  "\<exists>cm. snd (track_callback_metrics env eval_results using_eval_result s) = s\<lparr>callback_metrics := cm\<rparr>"
proof (cases "first_is_no_Result eval_results")
  case (Inl e)
  then have "snd (track_callback_metrics env eval_results using_eval_result s) = s"
    by (simp add: track_callback_metrics_def)
  with same_state[of s] show ?thesis by metis
next
  case (Inr b)
  show ?thesis
  proof (cases b)
    case True
    with Inr have "snd (track_callback_metrics env eval_results using_eval_result s) = s"
      by (simp add: track_callback_metrics_def)
    with same_state[of s] show ?thesis by metis
  next
    case False
    show ?thesis
    proof (cases using_eval_result)
      case True
      with Inr False have "track_callback_metrics env eval_results using_eval_result s =
         update_from_eval_results (case eval_results of EList xs \<Rightarrow> xs | ESingle x \<Rightarrow> [x]) s"
        by (simp add: track_callback_metrics_def split: eval_results.splits)
      then show ?thesis using update_from_eval_results_frame by simp
    next
      case u: False
      show ?thesis
      proof (cases eval_results)
        case (EList xs)
        with Inr False u have "track_callback_metrics env eval_results using_eval_result s =
           update_from_legacy_results env xs None s"
          by (simp add: track_callback_metrics_def)
        then show ?thesis using update_from_legacy_results_frame by simp
      next
        case (ESingle x)
        show ?thesis
        proof (cases "case x of ETensor v \<Rightarrow> Inr [(''val_loss'', Tensor v)] | _ \<Rightarrow> flatten_dict env x")
          case (Inl e)
          with Inr False u ESingle
          have "snd (track_callback_metrics env eval_results using_eval_result s) = s"
            by (simp add: track_callback_metrics_def)
          with same_state[of s] show ?thesis by metis
        next
          case r: (Inr f)
          with Inr False u ESingle
          have "snd (track_callback_metrics env eval_results using_eval_result s) =
             s\<lparr>callback_metrics := dict_update (callback_metrics s) (add_val_loss_aliases f)\<rparr>"
            by (simp add: track_callback_metrics_def)
          then show ?thesis by blast
        qed
      qed
    qed
  qed
qed

lemma track_1_0_sanity:
  "running_sanity_check s \<Longrightarrow>
   track_callback_metrics_1_0 env logs metrics_to_log reduce_on_epoch s
     = (Inr metrics_to_log, s\<lparr>step_metrics := []\<rparr>)"
  by (simp add: track_callback_metrics_1_0_def Let_def)

lemma process_legacy_sanity:
  "running_sanity_check s \<Longrightarrow>
   process_eval_epoch_end_results_and_log_legacy env eval_results test_mode s = (Inr (), s)"
  by (simp add: process_eval_epoch_end_results_and_log_legacy_def)


lemma sanity_run:
  "before_on_evaluation_epoch_end env_with_cache (EList [EResult one_metric_result]) one_metric_result
      True False sanity_state
    = (Inr (), sanity_state\<lparr>callback_metrics := [(''a'', Scalar 1)], step_metrics := []\<rparr>)"
  by (simp add: before_on_evaluation_epoch_end_def track_callback_metrics_def first_is_no_Result_def
       track_callback_metrics_1_0_def process_eval_epoch_end_results_and_log_legacy_def
       env_with_cache_def plain_env_def sanity_state_def one_metric_result_def new_state_def
       init_connector_def)

lemma sanity_run_no_cache:
  "before_on_evaluation_epoch_end plain_env (EList [EResult one_metric_result]) one_metric_result
      True False sanity_state
    = (Inl (AttributeError ''cached_metrics''), sanity_state\<lparr>callback_metrics := [(''a'', Scalar 1)]\<rparr>)"
  by (simp add: before_on_evaluation_epoch_end_def track_callback_metrics_def first_is_no_Result_def
       plain_env_def sanity_state_def one_metric_result_def new_state_def init_connector_def)

lemma sanity_state_fields:
  "running_sanity_check sanity_state" "callback_metrics sanity_state = []"
  "step_metrics sanity_state = [[one_metric_result]]"
  by (simp_all add: sanity_state_def new_state_def init_connector_def)


text \<open>
  C9, as the code has it. While the sanity check runs, \<^verbatim>\<open>before_on_evaluation_epoch_end\<close>
  changes at most two things: the callback metrics, which become what
  \<^verbatim>\<open>_track_callback_metrics\<close> (it has no sanity-check test) makes of them, and the step
  metrics of the evaluation loop, which \<^verbatim>\<open>_track_callback_metrics_1_0\<close> clears before its
  sanity-check test and which are therefore empty whenever the call returns. The logged
  metrics, the progress-bar metrics, \<^verbatim>\<open>eval_loop_results\<close> and the backend are as before.
\<close>

theorem sanity_check_frame:
  assumes "running_sanity_check s"
  shows "\<exists>cm sm.
      snd (before_on_evaluation_epoch_end env deprecated_eval_results epoch_logs using_eval_result test_mode s)
        = s\<lparr>callback_metrics := cm, step_metrics := sm\<rparr>
    \<and> cm = callback_metrics (snd (track_callback_metrics env deprecated_eval_results using_eval_result s))
    \<and> (sm = [] \<or> sm = step_metrics s)
    \<and> (fst (before_on_evaluation_epoch_end env deprecated_eval_results epoch_logs using_eval_result test_mode s)
          = Inr () \<longrightarrow> sm = [])"
proof -
  let ?t = "track_callback_metrics env deprecated_eval_results using_eval_result s"
  let ?b = "before_on_evaluation_epoch_end env deprecated_eval_results epoch_logs using_eval_result test_mode s"
  from track_callback_metrics_frame obtain cm where cm: "snd ?t = s\<lparr>callback_metrics := cm\<rparr>"
    by blast
  then have cm': "cm = callback_metrics (snd ?t)" by simp
  let ?s1 = "s\<lparr>callback_metrics := cm\<rparr>"
  have sc: "running_sanity_check ?s1" using assms by simp
  obtain r where t: "?t = (r, ?s1)" using cm by (cases ?t) simp
  have raised: ?thesis if b: "?b = (Inl e, ?s1)" for e
  proof (intro exI conjI)
    show "snd ?b = s\<lparr>callback_metrics := cm, step_metrics := step_metrics s\<rparr>"
      unfolding b by simp
    show "cm = callback_metrics (snd ?t)" by (rule cm')
    show "step_metrics s = [] \<or> step_metrics s = step_metrics s" by simp
    show "fst ?b = Inr () \<longrightarrow> step_metrics s = []" unfolding b by simp
  qed
  show ?thesis
  proof (cases r)
    case (Inl e)
    with t have "?b = (Inl e, ?s1)" by (simp add: before_on_evaluation_epoch_end_def)
    then show ?thesis by (rule raised)
  next
    case (Inr u)
    show ?thesis
    proof (cases "cached_metrics_get_as_list env (Bool (testing ?s1))
                    ''before_on_batch_start'' ''epoch_log_metrics''")
      case (Inl e)
      with t Inr have "?b = (Inl e, ?s1)" by (simp add: before_on_evaluation_epoch_end_def)
      then show ?thesis by (rule raised)
    next
      case c: (Inr metrics_to_log)
      have sc': "running_sanity_check (?s1\<lparr>step_metrics := []\<rparr>)" using assms by simp
      have b: "?b = (Inr (), ?s1\<lparr>step_metrics := []\<rparr>)"
        unfolding before_on_evaluation_epoch_end_def t
        using Inr c by (simp add: track_1_0_sanity[OF sc] process_legacy_sanity[OF sc'])
      show ?thesis
      proof (intro exI conjI)
        show "snd ?b = s\<lparr>callback_metrics := cm, step_metrics := []\<rparr>"
          unfolding b by simp
        show "cm = callback_metrics (snd ?t)" by (rule cm')
        show "[] = [] \<or> [] = step_metrics s" by simp
        show "fst ?b = Inr () \<longrightarrow> [] = []" by simp
      qed
    qed
  qed
qed

text \<open>
  A run in the sanity check that returns: the step metrics are cleared, everything else but
  the callback metrics is as before.
\<close>

theorem sanity_check_frame_witness:
  "running_sanity_check sanity_state
   \<and> fst (before_on_evaluation_epoch_end env_with_cache (EList [EResult one_metric_result])
            one_metric_result True False sanity_state) = Inr ()
   \<and> (\<exists>cm. snd (before_on_evaluation_epoch_end env_with_cache (EList [EResult one_metric_result])
                 one_metric_result True False sanity_state)
            = sanity_state\<lparr>callback_metrics := cm, step_metrics := []\<rparr>)"
proof -
  from sanity_check_frame [OF sanity_state_fields(1), of env_with_cache
      "EList [EResult one_metric_result]" one_metric_result True False]
  obtain cm sm where
    "snd (before_on_evaluation_epoch_end env_with_cache (EList [EResult one_metric_result])
                 one_metric_result True False sanity_state)
            = sanity_state\<lparr>callback_metrics := cm, step_metrics := sm\<rparr>"
    "fst (before_on_evaluation_epoch_end env_with_cache (EList [EResult one_metric_result])
            one_metric_result True False sanity_state) = Inr () \<longrightarrow> sm = []"
    by blast
  moreover have "fst (before_on_evaluation_epoch_end env_with_cache (EList [EResult one_metric_result])
            one_metric_result True False sanity_state) = Inr ()"
    by (simp add: sanity_run)
  ultimately show ?thesis using sanity_state_fields(1) by auto
qed

text \<open>
  C9 as it is written fails: in the sanity check, with one structured result that carries a
  callback metric and one dataloader's step metrics accumulated, the call leaves callback
  metrics with the new key and no step metrics. The callback metrics are changed also when
  \<^verbatim>\<open>cached_metrics\<close> is missing and the call ends in AttributeError.
\<close>

theorem sanity_check_noop_counterexample:
  "running_sanity_check sanity_state
   \<and> callback_metrics sanity_state = []
   \<and> step_metrics sanity_state = [[one_metric_result]]
   \<and> callback_metrics (snd (before_on_evaluation_epoch_end env_with_cache
         (EList [EResult one_metric_result]) one_metric_result True False sanity_state))
       = [(''a'', Scalar 1)]
   \<and> step_metrics (snd (before_on_evaluation_epoch_end env_with_cache
         (EList [EResult one_metric_result]) one_metric_result True False sanity_state)) = []
   \<and> snd (before_on_evaluation_epoch_end env_with_cache
         (EList [EResult one_metric_result]) one_metric_result True False sanity_state)
       \<noteq> sanity_state
   \<and> callback_metrics (snd (before_on_evaluation_epoch_end plain_env
         (EList [EResult one_metric_result]) one_metric_result True False sanity_state))
       = [(''a'', Scalar 1)]"
proof -
  have "sanity_state\<lparr>callback_metrics := [(''a'', Scalar 1)], step_metrics := []\<rparr> \<noteq> sanity_state"
  proof
    assume "sanity_state\<lparr>callback_metrics := [(''a'', Scalar 1)], step_metrics := []\<rparr> = sanity_state"
    then have "step_metrics (sanity_state\<lparr>callback_metrics := [(''a'', Scalar 1)], step_metrics := []\<rparr>)
       = step_metrics sanity_state" by simp
    then show False by (simp add: sanity_state_fields)
  qed
  then show ?thesis
    by (simp add: sanity_run sanity_run_no_cache sanity_state_fields)
qed

section \<open>An empty epoch output at the end of a training epoch\<close>

text \<open>
  C5. \<^verbatim>\<open>log_train_epoch_end_metrics\<close> is meant to treat an empty epoch output as "no
  structured result" and go on with the legacy path: the \<^verbatim>\<open>try\<close> block catches IndexError
  and tests \<^verbatim>\<open>len(epoch_output) > 0\<close>. But \<^verbatim>\<open>epoch_output[0]\<close> is read before the
  \<^verbatim>\<open>try\<close>, so with no optimizer at all the call raises IndexError and changes nothing.
  With one optimizer that ran no step, the index error is inside the \<^verbatim>\<open>try\<close>, the output
  counts as no result, and the legacy path returns.
\<close>

theorem empty_epoch_output_raises:
  "log_train_epoch_end_metrics env [] checkpoint_accumulator early_stopping_accumulator
     num_optimizers s = (Inl IndexError, s)
   \<and> detect_result_obj [[]] [] = Inr (False, False)
   \<and> log_train_epoch_end_metrics plain_env [[]]
        \<lparr>num_values = 0, acc_mean = Scalar 0\<rparr> \<lparr>num_values = 0, acc_mean = Scalar 0\<rparr> 1 new_state
       = (Inr (), new_state)"
proof (intro conjI)
  show "log_train_epoch_end_metrics env [] checkpoint_accumulator early_stopping_accumulator
     num_optimizers s = (Inl IndexError, s)"
    by (simp add: log_train_epoch_end_metrics_def Let_def)
  show "detect_result_obj [[]] [] = Inr (False, False)"
    by (simp add: detect_result_obj_def)
  show "log_train_epoch_end_metrics plain_env [[]]
        \<lparr>num_values = 0, acc_mean = Scalar 0\<rparr> \<lparr>num_values = 0, acc_mean = Scalar 0\<rparr> 1 new_state
       = (Inr (), new_state)"
    by (simp add: log_train_epoch_end_metrics_def detect_result_obj_def
          run_legacy_training_epoch_end_def track_epoch_results_def merge_pbar_metrics_def
          plain_env_def new_state_def init_connector_def)
qed

end
